theory Spec2Isabelle
  imports Complex_Main "HOL-Library.AList" "HOL-Library.Sublist"
begin

section \<open>Python values, exceptions and strings\<close>

text \<open>
  The scorer of \<^verbatim>\<open>services/ai_scorer.py\<close> works on dynamically typed Python values. The
  values that occur are the plain data values that \<^verbatim>\<open>json.loads\<close> produces (and
  \<^verbatim>\<open>None\<close>). A Python \<^verbatim>\<open>str\<close> is the list of its Unicode code points, each a natural
  number. A \<^verbatim>\<open>dict\<close> is an association list with distinct keys in insertion order. A
  \<^verbatim>\<open>float\<close> is its exact rational value, or one of the three non-finite values (the sign
  of zero is not kept).
\<close>

type_synonym pystr = "nat list"

text \<open>The Python string, and the code point, of a literal written in this theory.\<close>

abbreviation u :: "string \<Rightarrow> pystr" where
  "u s \<equiv> map of_char s"

abbreviation ch :: "char \<Rightarrow> nat" where
  "ch c \<equiv> of_char c"

datatype pyfloat = Finite rat | PosInf | NegInf | NaN

datatype pyval =
    PyNone
  | PyBool bool
  | PyInt int
  | PyFloat pyfloat
  | PyStr pystr
  | PyList "pyval list"
  | PyDict "(pystr \<times> pyval) list"

type_synonym pydict = "(pystr \<times> pyval) list"

text \<open>
  An exception is its class and the text of \<^verbatim>\<open>str(e)\<close>. \<^verbatim>\<open>JSONDecodeError\<close> is the only
  class the scorer distinguishes; every class here is a subclass of \<^verbatim>\<open>Exception\<close>.
\<close>

datatype exn =
    JSONDecodeError pystr
  | ValueError pystr
  | TypeError pystr
  | OverflowError pystr
  | AttributeError pystr
  | KeyError pystr
  | RecursionError pystr

fun str_exn :: "exn \<Rightarrow> pystr" where
  "str_exn (JSONDecodeError m) = m"
| "str_exn (ValueError m) = m"
| "str_exn (TypeError m) = m"
| "str_exn (OverflowError m) = m"
| "str_exn (AttributeError m) = m"
| "str_exn (KeyError m) = m"
| "str_exn (RecursionError m) = m"

fun is_JSONDecodeError :: "exn \<Rightarrow> bool" where
  "is_JSONDecodeError (JSONDecodeError m) = True"
| "is_JSONDecodeError e = False"

definition quoted :: "pystr \<Rightarrow> pystr" where
  "quoted s = 0x27 # s @ [0x27]"

text \<open>\<^verbatim>\<open>type(v).__name__\<close>, as the interpreter's messages print it.\<close>

fun type_name :: "pyval \<Rightarrow> pystr" where
  "type_name PyNone = u ''NoneType''"
| "type_name (PyBool b) = u ''bool''"
| "type_name (PyInt n) = u ''int''"
| "type_name (PyFloat f) = u ''float''"
| "type_name (PyStr s) = u ''str''"
| "type_name (PyList xs) = u ''list''"
| "type_name (PyDict d) = u ''dict''"

subsection \<open>Decimal numerals\<close>

definition digit_char :: "nat \<Rightarrow> nat" where
  "digit_char d = 48 + d"

fun nat_digits :: "nat \<Rightarrow> pystr \<Rightarrow> pystr" where
  "nat_digits n acc = (if n < 10 then digit_char n # acc
                       else nat_digits (n div 10) (digit_char (n mod 10) # acc))"

declare nat_digits.simps [simp del]

definition str_nat :: "nat \<Rightarrow> pystr" where
  "str_nat n = nat_digits n []"

definition str_int :: "int \<Rightarrow> pystr" where
  "str_int i = (if i < 0 then ch CHR ''-'' # str_nat (nat (- i)) else str_nat (nat i))"

text \<open>The ASCII digits, the only ones of a JSON number.\<close>

definition is_digit :: "nat \<Rightarrow> bool" where
  "is_digit c = (48 \<le> c \<and> c \<le> 57)"

text \<open>
  The decimal digits of Unicode 14.0 (the database of CPython 3.11): every script's digits
  are ten consecutive code points, listed here by the code point of the digit zero. These
  are the characters that \<^verbatim>\<open>\d\<close> matches in a \<^verbatim>\<open>str\<close> pattern and that \<^verbatim>\<open>int\<close> accepts.
\<close>

definition decimal_zeros :: "nat list" where
  "decimal_zeros =
     [0x30, 0x660, 0x6F0, 0x7C0, 0x966, 0x9E6, 0xA66, 0xAE6, 0xB66, 0xBE6, 0xC66, 0xCE6, 0xD66,
      0xDE6, 0xE50, 0xED0, 0xF20, 0x1040, 0x1090, 0x17E0, 0x1810, 0x1946, 0x19D0, 0x1A80,
      0x1A90, 0x1B50, 0x1BB0, 0x1C40, 0x1C50, 0xA620, 0xA8D0, 0xA900, 0xA9D0, 0xA9F0, 0xAA50,
      0xABF0, 0xFF10, 0x104A0, 0x10D30, 0x11066, 0x110F0, 0x11136, 0x111D0, 0x112F0, 0x11450,
      0x114D0, 0x11650, 0x116C0, 0x11730, 0x118E0, 0x11950, 0x11C50, 0x11D50, 0x11DA0,
      0x16A60, 0x16AC0, 0x16B50, 0x1D7CE, 0x1D7D8, 0x1D7E2, 0x1D7EC, 0x1D7F6, 0x1E140,
      0x1E2F0, 0x1E950, 0x1FBF0]"

definition decimal_value :: "nat \<Rightarrow> nat option" where
  "decimal_value c =
     (case filter (\<lambda>z. z \<le> c \<and> c < z + 10) decimal_zeros of
        [] \<Rightarrow> None
      | z # zs \<Rightarrow> Some (c - z))"

definition is_decimal :: "nat \<Rightarrow> bool" where
  "is_decimal c = (decimal_value c \<noteq> None)"

definition digit_val :: "nat \<Rightarrow> int" where
  "digit_val c = (case decimal_value c of None \<Rightarrow> 0 | Some d \<Rightarrow> int d)"

definition int_of_digits :: "pystr \<Rightarrow> int" where
  "int_of_digits ds = foldl (\<lambda>a c. 10 * a + digit_val c) 0 ds"

subsection \<open>String methods\<close>

text \<open>
  \<^verbatim>\<open>str.isspace\<close>: the whitespace of Unicode 14.0. The same set is \<^verbatim>\<open>\s\<close> of the \<^verbatim>\<open>re\<close>
  module on \<^verbatim>\<open>str\<close> patterns and the default set of \<^verbatim>\<open>str.strip()\<close>.
\<close>

definition py_isspace :: "nat \<Rightarrow> bool" where
  "py_isspace c = (c \<in> set [0x9, 0xA, 0xB, 0xC, 0xD, 0x1C, 0x1D, 0x1E, 0x1F, 0x20, 0x85, 0xA0,
                             0x1680, 0x2000, 0x2001, 0x2002, 0x2003, 0x2004, 0x2005, 0x2006,
                             0x2007, 0x2008, 0x2009, 0x200A, 0x2028, 0x2029, 0x202F, 0x205F,
                             0x3000])"

definition strip :: "pystr \<Rightarrow> pystr" where
  "strip s = rev (dropWhile py_isspace (rev (dropWhile py_isspace s)))"

definition startswith :: "pystr \<Rightarrow> pystr \<Rightarrow> bool" where
  "startswith s p = prefix p s"

definition endswith :: "pystr \<Rightarrow> pystr \<Rightarrow> bool" where
  "endswith s p = prefix (rev p) (rev s)"

text \<open>\<^verbatim>\<open>sub in s\<close> on strings.\<close>

fun contains :: "pystr \<Rightarrow> pystr \<Rightarrow> bool" where
  "contains [] sub = (sub = [])"
| "contains (c # cs) sub = (prefix sub (c # cs) \<or> contains cs sub)"

subsection \<open>\<^verbatim>\<open>int(x)\<close>\<close>

text \<open>
  \<^verbatim>\<open>sys.get_int_max_str_digits()\<close>: the interpreter refuses to convert a decimal string of
  more digits to \<^verbatim>\<open>int\<close> (CPython 3.11 and the security releases of 3.7 to 3.10;
  default 4300).
\<close>

definition int_max_str_digits :: nat where
  "int_max_str_digits = 4300"

definition digits_limit_error :: "nat \<Rightarrow> exn" where
  "digits_limit_error n = ValueError (u ''Exceeds the limit ('' @ str_nat int_max_str_digits
     @ u '' digits) for integer string conversion: value has '' @ str_nat n
     @ u '' digits; use sys.set_int_max_str_digits() to increase the limit'')"

text \<open>\<^verbatim>\<open>int(ds)\<close> for a non-empty string of decimal digits, as a regex group \<^verbatim>\<open>(\d+)\<close> is.\<close>

definition int_of_digit_string :: "pystr \<Rightarrow> exn + int" where
  "int_of_digit_string ds =
     (if length ds > int_max_str_digits then Inl (digits_limit_error (length ds))
      else Inr (int_of_digits ds))"

text \<open>
  \<^verbatim>\<open>repr(s)\<close> of a string, for the message of a failed \<^verbatim>\<open>int(s)\<close>. The table holds the
  ranges of code points that \<^verbatim>\<open>str.isprintable\<close> rejects in Unicode 14.0; \<^verbatim>\<open>repr\<close> writes
  these as escapes.
\<close>

definition nonprintable_ranges :: "(nat \<times> nat) list" where
  "nonprintable_ranges =
     [
(0x0, 0x1F), (0x7F, 0xA0), (0xAD, 0xAD), (0x378, 0x379), (0x380, 0x383), (0x38B, 0x38B),
      (0x38D, 0x38D), (0x3A2, 0x3A2), (0x530, 0x530), (0x557, 0x558), (0x58B, 0x58C), (0x590,
      0x590), (0x5C8, 0x5CF), (0x5EB, 0x5EE), (0x5F5, 0x605), (0x61C, 0x61C), (0x6DD, 0x6DD),
      (0x70E, 0x70F), (0x74B, 0x74C), (0x7B2, 0x7BF), (0x7FB, 0x7FC), (0x82E, 0x82F), (0x83F,
      0x83F), (0x85C, 0x85D), (0x85F, 0x85F), (0x86B, 0x86F), (0x88F, 0x897), (0x8E2, 0x8E2),
      (0x984, 0x984), (0x98D, 0x98E), (0x991, 0x992), (0x9A9, 0x9A9), (0x9B1, 0x9B1), (0x9B3,
      0x9B5), (0x9BA, 0x9BB), (0x9C5, 0x9C6), (0x9C9, 0x9CA), (0x9CF, 0x9D6), (0x9D8, 0x9DB),
      (0x9DE, 0x9DE), (0x9E4, 0x9E5), (0x9FF, 0xA00), (0xA04, 0xA04), (0xA0B, 0xA0E), (0xA11,
      0xA12), (0xA29, 0xA29), (0xA31, 0xA31), (0xA34, 0xA34), (0xA37, 0xA37), (0xA3A, 0xA3B),
      (0xA3D, 0xA3D), (0xA43, 0xA46), (0xA49, 0xA4A), (0xA4E, 0xA50), (0xA52, 0xA58), (0xA5D,
      0xA5D), (0xA5F, 0xA65), (0xA77, 0xA80), (0xA84, 0xA84), (0xA8E, 0xA8E), (0xA92, 0xA92),
      (0xAA9, 0xAA9), (0xAB1, 0xAB1), (0xAB4, 0xAB4), (0xABA, 0xABB), (0xAC6, 0xAC6), (0xACA,
      0xACA), (0xACE, 0xACF), (0xAD1, 0xADF), (0xAE4, 0xAE5), (0xAF2, 0xAF8), (0xB00, 0xB00),
      (0xB04, 0xB04), (0xB0D, 0xB0E), (0xB11, 0xB12), (0xB29, 0xB29), (0xB31, 0xB31), (0xB34,
      0xB34), (0xB3A, 0xB3B), (0xB45, 0xB46), (0xB49, 0xB4A), (0xB4E, 0xB54), (0xB58, 0xB5B),
      (0xB5E, 0xB5E), (0xB64, 0xB65), (0xB78, 0xB81), (0xB84, 0xB84), (0xB8B, 0xB8D), (0xB91,
      0xB91), (0xB96, 0xB98), (0xB9B, 0xB9B), (0xB9D, 0xB9D), (0xBA0, 0xBA2), (0xBA5, 0xBA7),
      (0xBAB, 0xBAD), (0xBBA, 0xBBD), (0xBC3, 0xBC5), (0xBC9, 0xBC9), (0xBCE, 0xBCF), (0xBD1,
      0xBD6), (0xBD8, 0xBE5), (0xBFB, 0xBFF), (0xC0D, 0xC0D), (0xC11, 0xC11), (0xC29, 0xC29),
      (0xC3A, 0xC3B), (0xC45, 0xC45), (0xC49, 0xC49), (0xC4E, 0xC54), (0xC57, 0xC57), (0xC5B,
      0xC5C), (0xC5E, 0xC5F), (0xC64, 0xC65), (0xC70, 0xC76), (0xC8D, 0xC8D), (0xC91, 0xC91),
      (0xCA9, 0xCA9), (0xCB4, 0xCB4), (0xCBA, 0xCBB), (0xCC5, 0xCC5), (0xCC9, 0xCC9), (0xCCE,
      0xCD4), (0xCD7, 0xCDC), (0xCDF, 0xCDF), (0xCE4, 0xCE5), (0xCF0, 0xCF0), (0xCF3, 0xCFF),
      (0xD0D, 0xD0D), (0xD11, 0xD11), (0xD45, 0xD45), (0xD49, 0xD49), (0xD50, 0xD53), (0xD64,
      0xD65), (0xD80, 0xD80), (0xD84, 0xD84), (0xD97, 0xD99), (0xDB2, 0xDB2), (0xDBC, 0xDBC),
      (0xDBE, 0xDBF), (0xDC7, 0xDC9), (0xDCB, 0xDCE), (0xDD5, 0xDD5), (0xDD7, 0xDD7), (0xDE0,
      0xDE5), (0xDF0, 0xDF1), (0xDF5, 0xE00), (0xE3B, 0xE3E), (0xE5C, 0xE80), (0xE83, 0xE83),
      (0xE85, 0xE85), (0xE8B, 0xE8B), (0xEA4, 0xEA4), (0xEA6, 0xEA6), (0xEBE, 0xEBF), (0xEC5,
      0xEC5), (0xEC7, 0xEC7), (0xECE, 0xECF), (0xEDA, 0xEDB), (0xEE0, 0xEFF), (0xF48, 0xF48),
      (0xF6D, 0xF70), (0xF98, 0xF98), (0xFBD, 0xFBD), (0xFCD, 0xFCD), (0xFDB, 0xFFF), (0x10C6,
      0x10C6), (0x10C8, 0x10CC), (0x10CE, 0x10CF), (0x1249, 0x1249), (0x124E, 0x124F), (0x1257,
      0x1257), (0x1259, 0x1259), (0x125E, 0x125F), (0x1289, 0x1289), (0x128E, 0x128F), (0x12B1,
      0x12B1), (0x12B6, 0x12B7), (0x12BF, 0x12BF), (0x12C1, 0x12C1), (0x12C6, 0x12C7), (0x12D7,
      0x12D7), (0x1311, 0x1311), (0x1316, 0x1317), (0x135B, 0x135C), (0x137D, 0x137F), (0x139A,
      0x139F), (0x13F6, 0x13F7), (0x13FE, 0x13FF), (0x1680, 0x1680), (0x169D, 0x169F), (0x16F9,
      0x16FF), (0x1716, 0x171E), (0x1737, 0x173F), (0x1754, 0x175F), (0x176D, 0x176D), (0x1771,
      0x1771), (0x1774, 0x177F), (0x17DE, 0x17DF), (0x17EA, 0x17EF), (0x17FA, 0x17FF), (0x180E,
      0x180E), (0x181A, 0x181F), (0x1879, 0x187F), (0x18AB, 0x18AF), (0x18F6, 0x18FF), (0x191F,
      0x191F), (0x192C, 0x192F), (0x193C, 0x193F), (0x1941, 0x1943), (0x196E, 0x196F), (0x1975,
      0x197F), (0x19AC, 0x19AF), (0x19CA, 0x19CF), (0x19DB, 0x19DD), (0x1A1C, 0x1A1D), (0x1A5F,
      0x1A5F), (0x1A7D, 0x1A7E), (0x1A8A, 0x1A8F), (0x1A9A, 0x1A9F), (0x1AAE, 0x1AAF), (0x1ACF,
      0x1AFF), (0x1B4D, 0x1B4F), (0x1B7F, 0x1B7F), (0x1BF4, 0x1BFB), (0x1C38, 0x1C3A), (0x1C4A,
      0x1C4C), (0x1C89, 0x1C8F), (0x1CBB, 0x1CBC), (0x1CC8, 0x1CCF), (0x1CFB, 0x1CFF), (0x1F16,
      0x1F17), (0x1F1E, 0x1F1F), (0x1F46, 0x1F47), (0x1F4E, 0x1F4F), (0x1F58, 0x1F58), (0x1F5A,
      0x1F5A), (0x1F5C, 0x1F5C), (0x1F5E, 0x1F5E), (0x1F7E, 0x1F7F), (0x1FB5, 0x1FB5), (0x1FC5,
      0x1FC5), (0x1FD4, 0x1FD5), (0x1FDC, 0x1FDC), (0x1FF0, 0x1FF1), (0x1FF5, 0x1FF5), (0x1FFF,
      0x200F), (0x2028, 0x202F), (0x205F, 0x206F), (0x2072, 0x2073), (0x208F, 0x208F), (0x209D,
      0x209F), (0x20C1, 0x20CF), (0x20F1, 0x20FF), (0x218C, 0x218F), (0x2427, 0x243F), (0x244B,
      0x245F), (0x2B74, 0x2B75), (0x2B96, 0x2B96), (0x2CF4, 0x2CF8), (0x2D26, 0x2D26), (0x2D28,
      0x2D2C), (0x2D2E, 0x2D2F), (0x2D68, 0x2D6E), (0x2D71, 0x2D7E), (0x2D97, 0x2D9F), (0x2DA7,
      0x2DA7), (0x2DAF, 0x2DAF), (0x2DB7, 0x2DB7), (0x2DBF, 0x2DBF), (0x2DC7, 0x2DC7), (0x2DCF,
      0x2DCF), (0x2DD7, 0x2DD7), (0x2DDF, 0x2DDF), (0x2E5E, 0x2E7F), (0x2E9A, 0x2E9A), (0x2EF4,
      0x2EFF), (0x2FD6, 0x2FEF), (0x2FFC, 0x3000), (0x3040, 0x3040), (0x3097, 0x3098), (0x3100,
      0x3104), (0x3130, 0x3130), (0x318F, 0x318F), (0x31E4, 0x31EF), (0x321F, 0x321F), (0xA48D,
      0xA48F), (0xA4C7, 0xA4CF), (0xA62C, 0xA63F), (0xA6F8, 0xA6FF), (0xA7CB, 0xA7CF), (0xA7D2,
      0xA7D2), (0xA7D4, 0xA7D4), (0xA7DA, 0xA7F1), (0xA82D, 0xA82F), (0xA83A, 0xA83F), (0xA878,
      0xA87F), (0xA8C6, 0xA8CD), (0xA8DA, 0xA8DF), (0xA954, 0xA95E), (0xA97D, 0xA97F), (0xA9CE,
      0xA9CE), (0xA9DA, 0xA9DD), (0xA9FF, 0xA9FF), (0xAA37, 0xAA3F), (0xAA4E, 0xAA4F), (0xAA5A,
      0xAA5B), (0xAAC3, 0xAADA), (0xAAF7, 0xAB00), (0xAB07, 0xAB08), (0xAB0F, 0xAB10), (0xAB17,
      0xAB1F), (0xAB27, 0xAB27), (0xAB2F, 0xAB2F), (0xAB6C, 0xAB6F), (0xABEE, 0xABEF), (0xABFA,
      0xABFF), (0xD7A4, 0xD7AF), (0xD7C7, 0xD7CA), (0xD7FC, 0xF8FF), (0xFA6E, 0xFA6F), (0xFADA,
      0xFAFF), (0xFB07, 0xFB12), (0xFB18, 0xFB1C), (0xFB37, 0xFB37), (0xFB3D, 0xFB3D), (0xFB3F,
      0xFB3F), (0xFB42, 0xFB42), (0xFB45, 0xFB45), (0xFBC3, 0xFBD2), (0xFD90, 0xFD91), (0xFDC8,
      0xFDCE), (0xFDD0, 0xFDEF), (0xFE1A, 0xFE1F), (0xFE53, 0xFE53), (0xFE67, 0xFE67), (0xFE6C,
      0xFE6F), (0xFE75, 0xFE75), (0xFEFD, 0xFF00), (0xFFBF, 0xFFC1), (0xFFC8, 0xFFC9), (0xFFD0,
      0xFFD1), (0xFFD8, 0xFFD9), (0xFFDD, 0xFFDF), (0xFFE7, 0xFFE7), (0xFFEF, 0xFFFB), (0xFFFE,
      0xFFFF), (0x1000C, 0x1000C), (0x10027, 0x10027), (0x1003B, 0x1003B), (0x1003E, 0x1003E),
      (0x1004E, 0x1004F), (0x1005E, 0x1007F), (0x100FB, 0x100FF), (0x10103, 0x10106), (0x10134,
      0x10136), (0x1018F, 0x1018F), (0x1019D, 0x1019F), (0x101A1, 0x101CF), (0x101FE, 0x1027F),
      (0x1029D, 0x1029F), (0x102D1, 0x102DF), (0x102FC, 0x102FF), (0x10324, 0x1032C), (0x1034B,
      0x1034F), (0x1037B, 0x1037F), (0x1039E, 0x1039E), (0x103C4, 0x103C7), (0x103D6, 0x103FF),
      (0x1049E, 0x1049F), (0x104AA, 0x104AF), (0x104D4, 0x104D7), (0x104FC, 0x104FF), (0x10528,
      0x1052F), (0x10564, 0x1056E), (0x1057B, 0x1057B), (0x1058B, 0x1058B), (0x10593, 0x10593),
      (0x10596, 0x10596), (0x105A2, 0x105A2), (0x105B2, 0x105B2), (0x105BA, 0x105BA), (0x105BD,
      0x105FF), (0x10737, 0x1073F), (0x10756, 0x1075F), (0x10768, 0x1077F), (0x10786, 0x10786),
      (0x107B1, 0x107B1), (0x107BB, 0x107FF), (0x10806, 0x10807), (0x10809, 0x10809), (0x10836,
      0x10836), (0x10839, 0x1083B), (0x1083D, 0x1083E), (0x10856, 0x10856), (0x1089F, 0x108A6),
      (0x108B0, 0x108DF), (0x108F3, 0x108F3), (0x108F6, 0x108FA), (0x1091C, 0x1091E), (0x1093A,
      0x1093E), (0x10940, 0x1097F), (0x109B8, 0x109BB), (0x109D0, 0x109D1), (0x10A04, 0x10A04),
      (0x10A07, 0x10A0B), (0x10A14, 0x10A14), (0x10A18, 0x10A18), (0x10A36, 0x10A37), (0x10A3B,
      0x10A3E), (0x10A49, 0x10A4F), (0x10A59, 0x10A5F), (0x10AA0, 0x10ABF), (0x10AE7, 0x10AEA),
      (0x10AF7, 0x10AFF), (0x10B36, 0x10B38), (0x10B56, 0x10B57), (0x10B73, 0x10B77), (0x10B92,
      0x10B98), (0x10B9D, 0x10BA8), (0x10BB0, 0x10BFF), (0x10C49, 0x10C7F), (0x10CB3, 0x10CBF),
      (0x10CF3, 0x10CF9), (0x10D28, 0x10D2F), (0x10D3A, 0x10E5F), (0x10E7F, 0x10E7F), (0x10EAA,
      0x10EAA), (0x10EAE, 0x10EAF), (0x10EB2, 0x10EFF), (0x10F28, 0x10F2F), (0x10F5A, 0x10F6F),
      (0x10F8A, 0x10FAF), (0x10FCC, 0x10FDF), (0x10FF7, 0x10FFF), (0x1104E, 0x11051), (0x11076,
      0x1107E), (0x110BD, 0x110BD), (0x110C3, 0x110CF), (0x110E9, 0x110EF), (0x110FA, 0x110FF),
      (0x11135, 0x11135), (0x11148, 0x1114F), (0x11177, 0x1117F), (0x111E0, 0x111E0), (0x111F5,
      0x111FF), (0x11212, 0x11212), (0x1123F, 0x1127F), (0x11287, 0x11287), (0x11289, 0x11289),
      (0x1128E, 0x1128E), (0x1129E, 0x1129E), (0x112AA, 0x112AF), (0x112EB, 0x112EF), (0x112FA,
      0x112FF), (0x11304, 0x11304), (0x1130D, 0x1130E), (0x11311, 0x11312), (0x11329, 0x11329),
      (0x11331, 0x11331), (0x11334, 0x11334), (0x1133A, 0x1133A), (0x11345, 0x11346), (0x11349,
      0x1134A), (0x1134E, 0x1134F), (0x11351, 0x11356), (0x11358, 0x1135C), (0x11364, 0x11365),
      (0x1136D, 0x1136F), (0x11375, 0x113FF), (0x1145C, 0x1145C), (0x11462, 0x1147F), (0x114C8,
      0x114CF), (0x114DA, 0x1157F), (0x115B6, 0x115B7), (0x115DE, 0x115FF), (0x11645, 0x1164F),
      (0x1165A, 0x1165F), (0x1166D, 0x1167F), (0x116BA, 0x116BF), (0x116CA, 0x116FF), (0x1171B,
      0x1171C), (0x1172C, 0x1172F), (0x11747, 0x117FF), (0x1183C, 0x1189F), (0x118F3, 0x118FE),
      (0x11907, 0x11908), (0x1190A, 0x1190B), (0x11914, 0x11914), (0x11917, 0x11917), (0x11936,
      0x11936), (0x11939, 0x1193A), (0x11947, 0x1194F), (0x1195A, 0x1199F), (0x119A8, 0x119A9),
      (0x119D8, 0x119D9), (0x119E5, 0x119FF), (0x11A48, 0x11A4F), (0x11AA3, 0x11AAF), (0x11AF9,
      0x11BFF), (0x11C09, 0x11C09), (0x11C37, 0x11C37), (0x11C46, 0x11C4F), (0x11C6D, 0x11C6F),
      (0x11C90, 0x11C91), (0x11CA8, 0x11CA8), (0x11CB7, 0x11CFF), (0x11D07, 0x11D07), (0x11D0A,
      0x11D0A), (0x11D37, 0x11D39), (0x11D3B, 0x11D3B), (0x11D3E, 0x11D3E), (0x11D48, 0x11D4F),
      (0x11D5A, 0x11D5F), (0x11D66, 0x11D66), (0x11D69, 0x11D69), (0x11D8F, 0x11D8F), (0x11D92,
      0x11D92), (0x11D99, 0x11D9F), (0x11DAA, 0x11EDF), (0x11EF9, 0x11FAF), (0x11FB1, 0x11FBF),
      (0x11FF2, 0x11FFE), (0x1239A, 0x123FF), (0x1246F, 0x1246F), (0x12475, 0x1247F), (0x12544,
      0x12F8F), (0x12FF3, 0x12FFF), (0x1342F, 0x143FF), (0x14647, 0x167FF), (0x16A39, 0x16A3F),
      (0x16A5F, 0x16A5F), (0x16A6A, 0x16A6D), (0x16ABF, 0x16ABF), (0x16ACA, 0x16ACF), (0x16AEE,
      0x16AEF), (0x16AF6, 0x16AFF), (0x16B46, 0x16B4F), (0x16B5A, 0x16B5A), (0x16B62, 0x16B62),
      (0x16B78, 0x16B7C), (0x16B90, 0x16E3F), (0x16E9B, 0x16EFF), (0x16F4B, 0x16F4E), (0x16F88,
      0x16F8E), (0x16FA0, 0x16FDF), (0x16FE5, 0x16FEF), (0x16FF2, 0x16FFF), (0x187F8, 0x187FF),
      (0x18CD6, 0x18CFF), (0x18D09, 0x1AFEF), (0x1AFF4, 0x1AFF4), (0x1AFFC, 0x1AFFC), (0x1AFFF,
      0x1AFFF), (0x1B123, 0x1B14F), (0x1B153, 0x1B163), (0x1B168, 0x1B16F), (0x1B2FC, 0x1BBFF),
      (0x1BC6B, 0x1BC6F), (0x1BC7D, 0x1BC7F), (0x1BC89, 0x1BC8F), (0x1BC9A, 0x1BC9B), (0x1BCA0,
      0x1CEFF), (0x1CF2E, 0x1CF2F), (0x1CF47, 0x1CF4F), (0x1CFC4, 0x1CFFF), (0x1D0F6, 0x1D0FF),
      (0x1D127, 0x1D128), (0x1D173, 0x1D17A), (0x1D1EB, 0x1D1FF), (0x1D246, 0x1D2DF), (0x1D2F4,
      0x1D2FF), (0x1D357, 0x1D35F), (0x1D379, 0x1D3FF), (0x1D455, 0x1D455), (0x1D49D, 0x1D49D),
      (0x1D4A0, 0x1D4A1), (0x1D4A3, 0x1D4A4), (0x1D4A7, 0x1D4A8), (0x1D4AD, 0x1D4AD), (0x1D4BA,
      0x1D4BA), (0x1D4BC, 0x1D4BC), (0x1D4C4, 0x1D4C4), (0x1D506, 0x1D506), (0x1D50B, 0x1D50C),
      (0x1D515, 0x1D515), (0x1D51D, 0x1D51D), (0x1D53A, 0x1D53A), (0x1D53F, 0x1D53F), (0x1D545,
      0x1D545), (0x1D547, 0x1D549), (0x1D551, 0x1D551), (0x1D6A6, 0x1D6A7), (0x1D7CC, 0x1D7CD),
      (0x1DA8C, 0x1DA9A), (0x1DAA0, 0x1DAA0), (0x1DAB0, 0x1DEFF), (0x1DF1F, 0x1DFFF), (0x1E007,
      0x1E007), (0x1E019, 0x1E01A), (0x1E022, 0x1E022), (0x1E025, 0x1E025), (0x1E02B, 0x1E0FF),
      (0x1E12D, 0x1E12F), (0x1E13E, 0x1E13F), (0x1E14A, 0x1E14D), (0x1E150, 0x1E28F), (0x1E2AF,
      0x1E2BF), (0x1E2FA, 0x1E2FE), (0x1E300, 0x1E7DF), (0x1E7E7, 0x1E7E7), (0x1E7EC, 0x1E7EC),
      (0x1E7EF, 0x1E7EF), (0x1E7FF, 0x1E7FF), (0x1E8C5, 0x1E8C6), (0x1E8D7, 0x1E8FF), (0x1E94C,
      0x1E94F), (0x1E95A, 0x1E95D), (0x1E960, 0x1EC70), (0x1ECB5, 0x1ED00), (0x1ED3E, 0x1EDFF),
      (0x1EE04, 0x1EE04), (0x1EE20, 0x1EE20), (0x1EE23, 0x1EE23), (0x1EE25, 0x1EE26), (0x1EE28,
      0x1EE28), (0x1EE33, 0x1EE33), (0x1EE38, 0x1EE38), (0x1EE3A, 0x1EE3A), (0x1EE3C, 0x1EE41),
      (0x1EE43, 0x1EE46), (0x1EE48, 0x1EE48), (0x1EE4A, 0x1EE4A), (0x1EE4C, 0x1EE4C), (0x1EE50,
      0x1EE50), (0x1EE53, 0x1EE53), (0x1EE55, 0x1EE56), (0x1EE58, 0x1EE58), (0x1EE5A, 0x1EE5A),
      (0x1EE5C, 0x1EE5C), (0x1EE5E, 0x1EE5E), (0x1EE60, 0x1EE60), (0x1EE63, 0x1EE63), (0x1EE65,
      0x1EE66), (0x1EE6B, 0x1EE6B), (0x1EE73, 0x1EE73), (0x1EE78, 0x1EE78), (0x1EE7D, 0x1EE7D),
      (0x1EE7F, 0x1EE7F), (0x1EE8A, 0x1EE8A), (0x1EE9C, 0x1EEA0), (0x1EEA4, 0x1EEA4), (0x1EEAA,
      0x1EEAA), (0x1EEBC, 0x1EEEF), (0x1EEF2, 0x1EFFF), (0x1F02C, 0x1F02F), (0x1F094, 0x1F09F),
      (0x1F0AF, 0x1F0B0), (0x1F0C0, 0x1F0C0), (0x1F0D0, 0x1F0D0), (0x1F0F6, 0x1F0FF), (0x1F1AE,
      0x1F1E5), (0x1F203, 0x1F20F), (0x1F23C, 0x1F23F), (0x1F249, 0x1F24F), (0x1F252, 0x1F25F),
      (0x1F266, 0x1F2FF), (0x1F6D8, 0x1F6DC), (0x1F6ED, 0x1F6EF), (0x1F6FD, 0x1F6FF), (0x1F774,
      0x1F77F), (0x1F7D9, 0x1F7DF), (0x1F7EC, 0x1F7EF), (0x1F7F1, 0x1F7FF), (0x1F80C, 0x1F80F),
      (0x1F848, 0x1F84F), (0x1F85A, 0x1F85F), (0x1F888, 0x1F88F), (0x1F8AE, 0x1F8AF), (0x1F8B2,
      0x1F8FF), (0x1FA54, 0x1FA5F), (0x1FA6E, 0x1FA6F), (0x1FA75, 0x1FA77), (0x1FA7D, 0x1FA7F),
      (0x1FA87, 0x1FA8F), (0x1FAAD, 0x1FAAF), (0x1FABB, 0x1FABF), (0x1FAC6, 0x1FACF), (0x1FADA,
      0x1FADF), (0x1FAE8, 0x1FAEF), (0x1FAF7, 0x1FAFF), (0x1FB93, 0x1FB93), (0x1FBCB, 0x1FBEF),
      (0x1FBFA, 0x1FFFF), (0x2A6E0, 0x2A6FF), (0x2B739, 0x2B73F), (0x2B81E, 0x2B81F), (0x2CEA2,
      0x2CEAF), (0x2EBE1, 0x2F7FF), (0x2FA1E, 0x2FFFF), (0x3134B, 0xE00FF), (0xE01F0, 0x10FFFF)]"

definition isprintable :: "nat \<Rightarrow> bool" where
  "isprintable c = (\<forall>r \<in> set nonprintable_ranges. c < fst r \<or> snd r < c)"

definition hex_digit :: "nat \<Rightarrow> nat" where
  "hex_digit d = (if d < 10 then 48 + d else 87 + d)"

text \<open>The last \<open>n\<close> hexadecimal digits of a number.\<close>

fun hex_digits :: "nat \<Rightarrow> nat \<Rightarrow> pystr" where
  "hex_digits 0 c = []"
| "hex_digits (Suc n) c = hex_digits n (c div 16) @ [hex_digit (c mod 16)]"

definition repr_char :: "nat \<Rightarrow> nat \<Rightarrow> pystr" where
  "repr_char q c =
     (if c = 0x5C then [0x5C, 0x5C]
      else if c = q then [0x5C, q]
      else if c = 0x0A then [0x5C, ch CHR ''n'']
      else if c = 0x0D then [0x5C, ch CHR ''r'']
      else if c = 0x09 then [0x5C, ch CHR ''t'']
      else if isprintable c then [c]
      else if c < 0x100 then [0x5C, ch CHR ''x''] @ hex_digits 2 c
      else if c < 0x10000 then [0x5C, ch CHR ''u''] @ hex_digits 4 c
      else [0x5C, ch CHR ''U''] @ hex_digits 8 c)"

definition repr_str :: "pystr \<Rightarrow> pystr" where
  "repr_str s =
     (let q = (if 0x27 \<in> set s \<and> 0x22 \<notin> set s then 0x22 else 0x27)
      in q # concat (map (repr_char q) s) @ [q])"

text \<open>
  The whitespace \<^verbatim>\<open>int(s)\<close> skips around the literal: the ASCII set of C's \<^verbatim>\<open>isspace\<close>
  and the Unicode whitespace from code point 127 on.
\<close>

definition int_isspace :: "nat \<Rightarrow> bool" where
  "int_isspace c = (c \<in> set [0x9, 0xA, 0xB, 0xC, 0xD, 0x20] \<or> (127 \<le> c \<and> py_isspace c))"

text \<open>
  Decimal digits with single underscores between them: the longest such prefix is
  scanned.
\<close>

fun scan_digits :: "pystr \<Rightarrow> bool \<Rightarrow> pystr \<Rightarrow> (pystr \<times> pystr) option" where
  "scan_digits [] prev_us acc = (if prev_us then None else Some (rev acc, []))"
| "scan_digits (c # cs) prev_us acc =
     (if is_decimal c then scan_digits cs False (c # acc)
      else if c = ch CHR ''_'' then (if prev_us then None else scan_digits cs True acc)
      else if prev_us then None else Some (rev acc, c # cs))"

definition int_of_str :: "pystr \<Rightarrow> exn + int" where
  "int_of_str s =
     (let invalid = ValueError (u ''invalid literal for int() with base 10: '' @ take 200 (repr_str s));
          t = dropWhile int_isspace s;
          neg = (t \<noteq> [] \<and> hd t = ch CHR ''-'');
          body = (if t \<noteq> [] \<and> (hd t = ch CHR ''-'' \<or> hd t = ch CHR ''+'') then tl t else t)
      in if body = [] \<or> \<not> is_decimal (hd body) then Inl invalid
         else (case scan_digits body False [] of
                 None \<Rightarrow> Inl invalid
               | Some (ds, rest) \<Rightarrow>
                   if length ds > int_max_str_digits then Inl (digits_limit_error (length ds))
                   else if dropWhile int_isspace rest \<noteq> [] then Inl invalid
                   else Inr (if neg then - int_of_digits ds else int_of_digits ds)))"

definition trunc_rat :: "rat \<Rightarrow> int" where
  "trunc_rat q = (if q < 0 then - \<lfloor>- q\<rfloor> else \<lfloor>q\<rfloor>)"

fun py_int :: "pyval \<Rightarrow> exn + int" where
  "py_int (PyInt n) = Inr n"
| "py_int (PyBool b) = Inr (if b then 1 else 0)"
| "py_int (PyFloat (Finite q)) = Inr (trunc_rat q)"
| "py_int (PyFloat NaN) = Inl (ValueError (u ''cannot convert float NaN to integer''))"
| "py_int (PyFloat f) = Inl (OverflowError (u ''cannot convert float infinity to integer''))"
| "py_int (PyStr s) = int_of_str s"
| "py_int v = Inl (TypeError (u ''int() argument must be a string, a bytes-like object or a real number, not ''
                               @ quoted (type_name v)))"


section \<open>The regular expressions of the Normalizer\<close>

text \<open>
  \<^verbatim>\<open>re.search(r'\{[\s\S]*\}', cleaned)\<close>: the leftmost match starts at the first \<^verbatim>\<open>{\<close>;
  the class \<^verbatim>\<open>[\s\S]\<close> matches every character and the star is greedy, so the match ends
  at the last \<^verbatim>\<open>}\<close> of the text. If no \<^verbatim>\<open>}\<close> follows the first \<^verbatim>\<open>{\<close>, none follows a later
  one and the search fails. The result is \<^verbatim>\<open>group(0)\<close>.
\<close>

definition search_braces :: "pystr \<Rightarrow> pystr option" where
  "search_braces s =
     (let t = dropWhile (\<lambda>c. c \<noteq> (ch CHR ''{'')) s
      in if (ch CHR ''}'') \<in> set t then Some (rev (dropWhile (\<lambda>c. c \<noteq> (ch CHR ''}'')) (rev t))) else None)"

text \<open>
  \<^verbatim>\<open>re.search(r'"score"\s*:\s*(\d+)', response_text)\<close>. At a fixed start the match is
  deterministic: neither \<^verbatim>\<open>:\<close> nor a digit is whitespace, so giving back whitespace never
  helps, and \<^verbatim>\<open>\d+\<close> takes the longest run of digits. The result is \<^verbatim>\<open>group(1)\<close> of the
  leftmost match.
\<close>

definition score_match_at :: "pystr \<Rightarrow> pystr option" where
  \<open>score_match_at s =
     (if prefix (u ''"score"'') s then
        (case dropWhile py_isspace (drop 7 s) of
           [] \<Rightarrow> None
         | c # r \<Rightarrow>
             if c = (ch CHR '':'') then
               (let ds = takeWhile is_decimal (dropWhile py_isspace r)
                in if ds = [] then None else Some ds)
             else None)
      else None)\<close>

fun search_score :: "pystr \<Rightarrow> pystr option" where
  "search_score [] = None"
| "search_score (c # cs) =
     (case score_match_at (c # cs) of Some ds \<Rightarrow> Some ds | None \<Rightarrow> search_score cs)"

section \<open>The Normalizer: \<^verbatim>\<open>_parse_score_response\<close>\<close>

text \<open>Dictionary operations: \<^verbatim>\<open>key in d\<close>, \<^verbatim>\<open>d.get(key)\<close>, \<^verbatim>\<open>d[key] = v\<close>.\<close>

definition has_key :: "pydict \<Rightarrow> pystr \<Rightarrow> bool" where
  "has_key d k = (k \<in> set (map fst d))"

definition dict_get :: "pydict \<Rightarrow> pystr \<Rightarrow> pyval option" where
  "dict_get d k = map_of d k"

definition dict_set :: "pystr \<Rightarrow> pyval \<Rightarrow> pydict \<Rightarrow> pydict" where
  "dict_set k v d = AList.update k v d"

text \<open>Lines 263 to 274: trimming and the markdown fences.\<close>

definition strip_fences :: "pystr \<Rightarrow> pystr" where
  "strip_fences response_text =
     (let cleaned = strip response_text;
          cleaned1 = (if startswith cleaned (u ''```json'') then drop 7 cleaned
                      else if startswith cleaned (u ''```'') then drop 3 cleaned
                      else cleaned);
          cleaned2 = (if endswith cleaned1 (u ''```'') then take (length cleaned1 - 3) cleaned1
                      else cleaned1)
      in strip cleaned2)"

text \<open>Lines 277 to 280: the span handed to the decoder.\<close>

definition extract_object :: "pystr \<Rightarrow> pystr" where
  "extract_object cleaned = (case search_braces cleaned of Some m \<Rightarrow> m | None \<Rightarrow> cleaned)"

text \<open>Lines 289 to 303: the defaults, in the order of the dictionary literal.\<close>

definition defaults :: pydict where
  "defaults =
     [((u ''executive_summary''), PyStr (u ''Analysis in progress...'')),
      ((u ''market_analysis''), PyStr (u ''Market data being analyzed...'')),
      ((u ''origin_analysis''), PyStr (u ''Origin analysis pending...'')),
      ((u ''buyer_profile''), PyStr (u ''Buyer analysis pending...'')),
      ((u ''price_analysis''), PyStr (u ''Price analysis pending...'')),
      ((u ''payment_logistics''), PyStr (u ''Payment analysis pending...'')),
      ((u ''red_flags''), PyList []),
      ((u ''unusual_patterns''), PyList []),
      ((u ''strengths''), PyList []),
      ((u ''next_steps''), PyList []),
      ((u ''reasoning''), PyList []),
      ((u ''recommendation''), PyStr (u ''Review detailed analysis'')),
      ((u ''risk_level''), PyStr (u ''medium''))]"

text \<open>Lines 305 to 307: the loop over \<^verbatim>\<open>defaults.items()\<close>.\<close>

fun fill_defaults :: "pydict \<Rightarrow> pydict \<Rightarrow> pydict" where
  "fill_defaults result [] = result"
| "fill_defaults result ((key, default_value) # rest) =
     fill_defaults (if has_key result key then result else dict_set key default_value result) rest"

text \<open>
  Line 284, \<^verbatim>\<open>'score' not in result\<close>, on whatever value the decoder returned: key
  membership for a dict, element membership for a list, substring for a string, and a
  \<^verbatim>\<open>TypeError\<close> otherwise.
\<close>

fun score_in :: "pyval \<Rightarrow> exn + bool" where
  "score_in (PyDict d) = Inr (has_key d (u ''score''))"
| "score_in (PyList xs) = Inr (PyStr (u ''score'') \<in> set xs)"
| "score_in (PyStr s) = Inr (contains s (u ''score''))"
| "score_in v = Inl (TypeError ((u ''argument of type '') @ quoted (type_name v) @ (u '' is not iterable'')))"

text \<open>Lines 284 to 313, after \<^verbatim>\<open>json.loads\<close> has returned \<^verbatim>\<open>result\<close>.\<close>

definition normalize_parsed :: "pyval \<Rightarrow> exn + pydict" where
  "normalize_parsed result =
     (case score_in result of
        Inl e \<Rightarrow> Inl e
      | Inr False \<Rightarrow> Inl (ValueError ((u ''Response missing '') @ quoted (u ''score'') @ (u '' field'')))
      | Inr True \<Rightarrow>
          (case result of
             PyDict d \<Rightarrow>
               (case dict_get d (u ''score'') of
                  None \<Rightarrow> Inl (KeyError (quoted (u ''score'')))
                | Some v \<Rightarrow>
                    (case py_int v of
                       Inl e \<Rightarrow> Inl e
                     | Inr n \<Rightarrow>
                         Inr (fill_defaults (dict_set (u ''score'') (PyInt (max 0 (min 100 n))) d)
                                defaults)))
           | PyList xs \<Rightarrow> Inl (TypeError (u ''list indices must be integers or slices, not str''))
           | PyStr s \<Rightarrow> Inl (TypeError ((u ''string indices must be integers, not '') @ quoted (u ''str'')))
           | v \<Rightarrow> Inl (TypeError (quoted (type_name v) @ (u '' object is not subscriptable'')))))"

text \<open>
  Lines 251 to 313, the body of the outer \<^verbatim>\<open>try\<close>. The decoder \<^verbatim>\<open>json.loads\<close> is the
  parameter \<open>loads\<close>. The diagnostic \<^verbatim>\<open>print\<close> calls write to the console and have no part
  in the result; they are left out, but the slice \<^verbatim>\<open>response_text[:500]\<close> of the first one
  and the call of \<^verbatim>\<open>.strip()\<close> fail on a value that is not a string.
\<close>

fun not_a_string_error :: "pyval \<Rightarrow> exn" where
  "not_a_string_error (PyList xs) = AttributeError (quoted (u ''list'') @ (u '' object has no attribute '') @ quoted (u ''strip''))"
| "not_a_string_error (PyDict d) = TypeError ((u ''unhashable type: '') @ quoted (u ''slice''))"
| "not_a_string_error v = TypeError (quoted (type_name v) @ (u '' object is not subscriptable''))"

definition try_parse :: "(pystr \<Rightarrow> exn + pyval) \<Rightarrow> pyval \<Rightarrow> exn + pydict" where
  "try_parse loads response_text =
     (case response_text of
        PyStr text \<Rightarrow>
          (case loads (extract_object (strip_fences text)) of
             Inl e \<Rightarrow> Inl e
           | Inr result \<Rightarrow> normalize_parsed result)
      | v \<Rightarrow> Inl (not_a_string_error v))"

text \<open>
  Lines 315 to 343, the handler of \<^verbatim>\<open>json.JSONDecodeError\<close>. An exception raised in a
  handler is not caught by the other handlers of the same \<^verbatim>\<open>try\<close>: the \<^verbatim>\<open>int(...)\<close> of line
  325 is the one call here that can raise.
\<close>

definition recover_score :: "pystr \<Rightarrow> exn + int" where
  "recover_score response_text =
     (case search_score response_text of
        Some ds \<Rightarrow> int_of_digit_string ds
      | None \<Rightarrow> Inr 50)"

definition see_summary :: pyval where
  "see_summary = PyStr (u ''See Executive Summary for raw AI response'')"

definition decode_error_result :: "pystr \<Rightarrow> exn \<Rightarrow> exn + pydict" where
  "decode_error_result response_text e =
     (case recover_score response_text of
        Inl err \<Rightarrow> Inl err
      | Inr score \<Rightarrow> Inr
         [((u ''score''), PyInt score),
          ((u ''executive_summary''), PyStr ((u ''Warning: JSON Parsing Error. Raw response:\<newline>\<newline>'')
                                          @ take 1000 response_text)),
          ((u ''market_analysis''), see_summary),
          ((u ''origin_analysis''), see_summary),
          ((u ''buyer_profile''), see_summary),
          ((u ''price_analysis''), see_summary),
          ((u ''payment_logistics''), see_summary),
          ((u ''red_flags''), PyList [PyStr ((u ''JSON parsing failed: '') @ str_exn e)]),
          ((u ''unusual_patterns''), PyList []),
          ((u ''strengths''), PyList []),
          ((u ''next_steps''), PyList [PyStr (u ''Check server console for full response''),
                                   PyStr (u ''Try re-running analysis'')]),
          ((u ''reasoning''), PyList [PyStr (u ''Warning: AI returned invalid JSON format'')]),
          ((u ''recommendation''), PyStr (u ''Check console output or try again'')),
          ((u ''risk_level''), PyStr (u ''medium''))])"

text \<open>Lines 344 to 364, the handler of every other \<^verbatim>\<open>Exception\<close>.\<close>

definition error_occurred :: pyval where
  "error_occurred = PyStr (u ''Error occurred'')"

definition generic_error_result :: "exn \<Rightarrow> pydict" where
  "generic_error_result e =
     [((u ''score''), PyInt 50),
      ((u ''executive_summary''), PyStr ((u ''Warning: Error: '') @ str_exn e)),
      ((u ''market_analysis''), error_occurred),
      ((u ''origin_analysis''), error_occurred),
      ((u ''buyer_profile''), error_occurred),
      ((u ''price_analysis''), error_occurred),
      ((u ''payment_logistics''), error_occurred),
      ((u ''red_flags''), PyList [PyStr (str_exn e)]),
      ((u ''unusual_patterns''), PyList []),
      ((u ''strengths''), PyList []),
      ((u ''next_steps''), PyList [PyStr (u ''Check error message''), PyStr (u ''Try again'')]),
      ((u ''reasoning''), PyList [PyStr (u ''Warning: Unexpected error occurred'')]),
      ((u ''recommendation''), PyStr (u ''Try running analysis again'')),
      ((u ''risk_level''), PyStr (u ''medium''))]"

text \<open>
  The whole method. \<open>Inl\<close> is an exception that leaves the method, \<open>Inr\<close> the returned
  dictionary. A \<^verbatim>\<open>JSONDecodeError\<close> can only come from the decoder, so \<^verbatim>\<open>response_text\<close>
  is a string in its handler; on another value \<^verbatim>\<open>re.search\<close> raises.
\<close>

definition parse_score_response_with ::
  "(pystr \<Rightarrow> exn + pyval) \<Rightarrow> pyval \<Rightarrow> exn + pydict" where
  "parse_score_response_with loads response_text =
     (case try_parse loads response_text of
        Inr result \<Rightarrow> Inr result
      | Inl e \<Rightarrow>
          if is_JSONDecodeError e then
            (case response_text of
               PyStr text \<Rightarrow> decode_error_result text e
             | v \<Rightarrow> Inl (TypeError ((u ''expected string or bytes-like object, got '')
                                     @ quoted (type_name v))))
          else Inr (generic_error_result e))"


section \<open>The decoder \<^verbatim>\<open>json.loads\<close>\<close>

text \<open>
  The library decoder in its default configuration (strict strings, the constants
  \<^verbatim>\<open>NaN\<close>, \<^verbatim>\<open>Infinity\<close> and \<^verbatim>\<open>-Infinity\<close> accepted), with the messages of CPython 3.11.
  The library's recursive descent is written as a machine with an explicit stack of the
  containers that are open, so that every step consumes input. The decoder enters a
  container through the interpreter's recursion guard: the parameter \<open>room\<close> is the number
  of containers that may be open at once before the recursion limit is reached (it
  depends on the depth of the call stack at the call of \<^verbatim>\<open>json.loads\<close>).
\<close>

subsection \<open>Error messages\<close>

definition decode_error :: "pystr \<Rightarrow> pystr \<Rightarrow> nat \<Rightarrow> exn" where
  "decode_error msg doc pos =
     (let pre = take pos doc;
          lineno = length (filter (\<lambda>c. c = 0x0A) pre) + 1;
          colno = length (takeWhile (\<lambda>c. c \<noteq> 0x0A) (rev pre)) + 1
      in JSONDecodeError (msg @ (u '': line '') @ str_nat lineno @ (u '' column '') @ str_nat colno
                            @ (u '' (char '') @ str_nat pos @ (u '')'')))"

text \<open>The error at the position where \<open>rest\<close> begins, \<open>rest\<close> being a suffix of \<open>doc\<close>.\<close>

definition error_at :: "pystr \<Rightarrow> pystr \<Rightarrow> pystr \<Rightarrow> exn" where
  "error_at msg doc rest = decode_error msg doc (length doc - length rest)"

definition json_ws :: "nat \<Rightarrow> bool" where
  "json_ws c = (c \<in> set [0x20, 0x09, 0x0A, 0x0D])"

definition skip_ws :: "pystr \<Rightarrow> pystr" where
  "skip_ws s = dropWhile json_ws s"

subsection \<open>Numbers\<close>

text \<open>
  \<^verbatim>\<open>float(text)\<close> rounds the decimal value to the nearest IEEE 754 double, ties to even, and
  overflows to infinity. \<open>round_ratio n d\<close> rounds the non-negative rational \<open>n / d\<close>.
\<close>

fun log2_floor :: "nat \<Rightarrow> nat" where
  "log2_floor n = (if n < 2 then 0 else Suc (log2_floor (n div 2)))"

declare log2_floor.simps [simp del]

definition round_half_even_div :: "nat \<Rightarrow> nat \<Rightarrow> nat" where
  "round_half_even_div n d =
     (let q = n div d; r = n mod d
      in if 2 * r < d then q else if d < 2 * r then q + 1 else if even q then q else q + 1)"

definition round_ratio :: "nat \<Rightarrow> nat \<Rightarrow> pyfloat" where
  "round_ratio n d =
     (if n = 0 then Finite 0
      else
        let k = int (log2_floor n) - int (log2_floor d);
            e = (if (if 0 \<le> k then 2 ^ nat k * d \<le> n else d \<le> n * 2 ^ nat (- k)) then k else k - 1);
            p = max e (- 1022) - 52
        in if 0 \<le> p then
             (let m = round_half_even_div n (d * 2 ^ nat p)
              in if 2 ^ 1024 \<le> m * 2 ^ nat p then PosInf else Finite (of_nat (m * 2 ^ nat p)))
           else
             (let m = round_half_even_div (n * 2 ^ nat (- p)) d
              in Finite (of_nat m / 2 ^ nat (- p))))"

fun negate :: "pyfloat \<Rightarrow> pyfloat" where
  "negate (Finite q) = Finite (- q)"
| "negate PosInf = NegInf"
| "negate NegInf = PosInf"
| "negate NaN = NaN"

text \<open>The float of a literal with integer digits \<open>ip\<close>, fraction digits \<open>fp\<close> and exponent \<open>ex\<close>.\<close>

definition float_of_literal :: "bool \<Rightarrow> pystr \<Rightarrow> pystr \<Rightarrow> int \<Rightarrow> pyfloat" where
  "float_of_literal neg ip fp ex =
     (let n = nat (int_of_digits (ip @ fp));
          s = ex - int (length fp);
          f = (if 0 \<le> s then round_ratio (n * 10 ^ nat s) 1 else round_ratio n (10 ^ nat (- s)))
      in if neg then negate f else f)"

text \<open>An exponent part \<^verbatim>\<open>[eE][-+]?\d+\<close> at the head of the input, if there is one.\<close>

definition lex_exponent :: "pystr \<Rightarrow> int option \<times> pystr" where
  "lex_exponent s =
     (case s of
        [] \<Rightarrow> (None, s)
      | c # r \<Rightarrow>
          if c = (ch CHR ''e'') \<or> c = (ch CHR ''E'') then
            (let minus = (r \<noteq> [] \<and> hd r = (ch CHR ''-''));
                 r1 = (if r \<noteq> [] \<and> (hd r = (ch CHR ''-'') \<or> hd r = (ch CHR ''+'')) then tl r else r);
                 ds = takeWhile is_digit r1
             in if ds = [] then (None, s)
                else (Some (if minus then - int_of_digits ds else int_of_digits ds),
                      dropWhile is_digit r1))
          else (None, s))"

text \<open>
  The number at the head of the input: \<^verbatim>\<open>(-?(?:0|[1-9]\d*))(\.\d+)?([eE][-+]?\d+)?\<close>.
  \<open>None\<close> when no number starts here. An integer literal goes through \<^verbatim>\<open>int\<close> and its
  limit on the number of digits.
\<close>

definition lex_number :: "pystr \<Rightarrow> ((exn + pyval) \<times> pystr) option" where
  "lex_number s =
     (let neg = (s \<noteq> [] \<and> hd s = (ch CHR ''-''));
          s1 = (if neg then tl s else s)
      in if s1 = [] \<or> \<not> is_digit (hd s1) then None
         else
           let ip = (if hd s1 = (ch CHR ''0'') then (u ''0'') else takeWhile is_digit s1);
               s2 = drop (length ip) s1;
               fp = (if s2 \<noteq> [] \<and> hd s2 = (ch CHR ''.'') then takeWhile is_digit (tl s2) else []);
               s3 = (if fp = [] then s2 else drop (Suc (length fp)) s2);
               ex = fst (lex_exponent s3);
               s4 = snd (lex_exponent s3)
           in if fp = [] \<and> ex = None then
                (if length ip > int_max_str_digits
                   then Some (Inl (digits_limit_error (length ip)), s4)
                 else Some (Inr (PyInt (if neg then - int_of_digits ip else int_of_digits ip)), s4))
              else Some (Inr (PyFloat (float_of_literal neg ip fp (case ex of None \<Rightarrow> 0 | Some x \<Rightarrow> x))), s4))"

subsection \<open>Strings\<close>

datatype scan_error = Unterminated | InvalidAt pystr nat

definition hex_val :: "nat \<Rightarrow> nat option" where
  "hex_val c =
     (if 48 \<le> c \<and> c \<le> 57 then Some (c - 48)
      else if 97 \<le> c \<and> c \<le> 102 then Some (c - 87)
      else if 65 \<le> c \<and> c \<le> 70 then Some (c - 55)
      else None)"

text \<open>The four hex digits of a \<^verbatim>\<open>\uXXXX\<close> escape.\<close>

definition decode_hex4 :: "pystr \<Rightarrow> nat option" where
  "decode_hex4 ds =
     (case map hex_val ds of
        [Some a, Some b, Some c, Some d] \<Rightarrow> Some (((a * 16 + b) * 16 + c) * 16 + d)
      | _ \<Rightarrow> None)"

definition unescape :: "nat \<Rightarrow> nat option" where
  "unescape e =
     (if e = ch CHR ''\"'' then Some (ch CHR ''\"'')
      else if e = 0x5C then Some 0x5C
      else if e = ch CHR ''/'' then Some (ch CHR ''/'')
      else if e = ch CHR ''b'' then Some 0x08
      else if e = ch CHR ''f'' then Some 0x0C
      else if e = ch CHR ''n'' then Some 0x0A
      else if e = ch CHR ''r'' then Some 0x0D
      else if e = ch CHR ''t'' then Some 0x09
      else None)"

definition invalid_u_escape :: "nat \<Rightarrow> scan_error" where
  "invalid_u_escape left = InvalidAt (0x5C # u ''uXXXX escape'') left"

text \<open>
  A \<^verbatim>\<open>\uXXXX\<close> escape; \<open>es\<close> is the input after the \<^verbatim>\<open>u\<close>. The escape needs its four
  digits and one more character after them. A high surrogate that is followed by another
  \<^verbatim>\<open>\u\<close> escape (and one more character) is joined with it when that one is a low
  surrogate; otherwise it stands alone and the second escape is read afterwards. The result
  is the code point and the number of characters of \<open>es\<close> that were used. An error carries
  the number of characters left at the reported position, the \<^verbatim>\<open>u\<close> of the escape.
\<close>

definition scan_u_escape :: "pystr \<Rightarrow> scan_error + nat \<times> nat" where
  "scan_u_escape es =
     (if length es < 5 then Inl (invalid_u_escape (Suc (length es)))
      else
        (case decode_hex4 (take 4 es) of
           None \<Rightarrow> Inl (invalid_u_escape (Suc (length es)))
         | Some c \<Rightarrow>
             if 0xD800 \<le> c \<and> c \<le> 0xDBFF \<and> 10 < length es \<and> take 2 (drop 4 es) = [0x5C, ch CHR ''u'']
             then
               (case decode_hex4 (take 4 (drop 6 es)) of
                  None \<Rightarrow> Inl (invalid_u_escape (length es - 5))
                | Some c2 \<Rightarrow>
                    if 0xDC00 \<le> c2 \<and> c2 \<le> 0xDFFF
                    then Inr (0x10000 + ((c - 0xD800) * 1024 + (c2 - 0xDC00)), 10)
                    else Inr (c, 4))
             else Inr (c, 4)))"

text \<open>
  \<^verbatim>\<open>scanstring\<close> from the character after the opening quote; \<open>acc\<close> is the decoded text so
  far, reversed. An error carries the number of characters left at the reported position.
\<close>

fun scanstring :: "pystr \<Rightarrow> pystr \<Rightarrow> scan_error + pystr \<times> pystr" where
  "scanstring [] acc = Inl Unterminated"
| "scanstring (c # cs) acc =
     (if c = ch CHR ''\"'' then Inr (rev acc, cs)
      else if c = 0x5C then
        (case cs of
           [] \<Rightarrow> Inl Unterminated
         | e # es \<Rightarrow>
             if e = ch CHR ''u'' then
               (case scan_u_escape es of
                  Inl err \<Rightarrow> Inl err
                | Inr (x, used) \<Rightarrow> scanstring (drop used es) (x # acc))
             else (case unescape e of
                     None \<Rightarrow> Inl (InvalidAt (0x5C # u ''escape'') (Suc (length cs)))
                   | Some x \<Rightarrow> scanstring es (x # acc)))
      else if c < 32 then Inl (InvalidAt (u ''control character at'') (Suc (length cs)))
      else scanstring cs (c # acc))"

text \<open>The exception of a failed \<^verbatim>\<open>scanstring\<close> whose opening quote is at \<open>begin\<close>.\<close>

fun scan_exn :: "pystr \<Rightarrow> nat \<Rightarrow> scan_error \<Rightarrow> exn" where
  "scan_exn doc begin Unterminated = decode_error (u ''Unterminated string starting at'') doc begin"
| "scan_exn doc begin (InvalidAt what left) = decode_error (u ''Invalid '' @ what) doc (length doc - left)"

subsection \<open>Values, arrays and objects\<close>

text \<open>
  An open container: an object with the pairs read so far (latest first) and the key whose
  value is being read, or an array with the values read so far (latest first).
\<close>

datatype frame = InObject "(pystr \<times> pyval) list" pystr | InArray "pyval list"

text \<open>
  The decoder is either about to read a value (\<open>Value\<close>, whitespace already skipped) or
  has just read one (\<open>After\<close>); the string is the input that is left.
\<close>

datatype cfg = Value "frame list" pystr | After "frame list" pyval pystr

fun remaining :: "cfg \<Rightarrow> pystr" where
  "remaining (Value stk s) = s"
| "remaining (After stk v s) = s"

text \<open>\<^verbatim>\<open>dict(pairs)\<close>: a repeated key keeps its first position and takes the last value.\<close>

definition dict_of_pairs :: "(pystr \<times> pyval) list \<Rightarrow> pydict" where
  "dict_of_pairs pairs = foldl (\<lambda>d kv. dict_set (fst kv) (snd kv) d) [] pairs"

text \<open>
  A key of an object: \<open>s\<close> is the input after the opening quote. After the key come
  optional whitespace, the colon, optional whitespace and the value.
\<close>

definition step_key :: "pystr \<Rightarrow> frame list \<Rightarrow> (pystr \<times> pyval) list \<Rightarrow> pystr \<Rightarrow> (exn + pyval) + cfg" where
  "step_key doc stk pairs s =
     (case scanstring s [] of
        Inl err \<Rightarrow> Inl (Inl (scan_exn doc (length doc - Suc (length s)) err))
      | Inr (key, r) \<Rightarrow>
          (case skip_ws r of
             [] \<Rightarrow> Inl (Inl (error_at ((u ''Expecting '') @ quoted (u '':'') @ (u '' delimiter'')) doc []))
           | c # r1 \<Rightarrow>
               if c = (ch CHR '':'') then Inr (Value (InObject pairs key # stk) (skip_ws r1))
               else Inl (Inl (error_at ((u ''Expecting '') @ quoted (u '':'') @ (u '' delimiter'')) doc (c # r1)))))"

definition property_name_expected :: pystr where
  "property_name_expected = (u ''Expecting property name enclosed in double quotes'')"

text \<open>
  \<^verbatim>\<open>scan_once\<close> on input that does not start a string, an object or an array: a literal
  name, a number or one of the three float constants.
\<close>

definition step_atom :: "pystr \<Rightarrow> frame list \<Rightarrow> pystr \<Rightarrow> (exn + pyval) + cfg" where
  "step_atom doc stk s =
     (if prefix (u ''null'') s then Inr (After stk PyNone (drop 4 s))
      else if prefix (u ''true'') s then Inr (After stk (PyBool True) (drop 4 s))
      else if prefix (u ''false'') s then Inr (After stk (PyBool False) (drop 5 s))
      else
        (case lex_number s of
           Some (Inl e, r1) \<Rightarrow> Inl (Inl e)
         | Some (Inr v, r1) \<Rightarrow> Inr (After stk v r1)
         | None \<Rightarrow>
             if prefix (u ''NaN'') s then Inr (After stk (PyFloat NaN) (drop 3 s))
             else if prefix (u ''Infinity'') s then Inr (After stk (PyFloat PosInf) (drop 8 s))
             else if prefix (u ''-Infinity'') s then Inr (After stk (PyFloat NegInf) (drop 9 s))
             else Inl (Inl (error_at (u ''Expecting value'') doc s))))"

text \<open>\<^verbatim>\<open>scan_once\<close>: the value that starts at the head of the input.\<close>

definition recursion_error :: "pystr \<Rightarrow> exn" where
  "recursion_error kind = RecursionError
     (u ''maximum recursion depth exceeded while decoding a JSON '' @ kind @ u '' from a unicode string'')"

definition step_value :: "nat \<Rightarrow> pystr \<Rightarrow> frame list \<Rightarrow> pystr \<Rightarrow> (exn + pyval) + cfg" where
  "step_value room doc stk s =
     (case s of
        [] \<Rightarrow> Inl (Inl (error_at (u ''Expecting value'') doc s))
      | c # r \<Rightarrow>
          if c = ch CHR ''\"'' then
            (case scanstring r [] of
               Inl err \<Rightarrow> Inl (Inl (scan_exn doc (length doc - length s) err))
             | Inr (str, r1) \<Rightarrow> Inr (After stk (PyStr str) r1))
          else if c = ch CHR ''{'' then
            (if room \<le> length stk then Inl (Inl (recursion_error (u ''object'')))
             else
               (case skip_ws r of
                  [] \<Rightarrow> Inl (Inl (error_at property_name_expected doc []))
                | c1 # r1 \<Rightarrow>
                    if c1 = ch CHR ''}'' then Inr (After stk (PyDict []) r1)
                    else if c1 = ch CHR ''\"'' then step_key doc stk [] r1
                    else Inl (Inl (error_at property_name_expected doc (c1 # r1)))))
          else if c = ch CHR ''['' then
            (if room \<le> length stk then Inl (Inl (recursion_error (u ''array'')))
             else
               (case skip_ws r of
                  [] \<Rightarrow> Inr (Value (InArray [] # stk) [])
                | c1 # r1 \<Rightarrow>
                    if c1 = ch CHR '']'' then Inr (After stk (PyList []) r1)
                    else Inr (Value (InArray [] # stk) (c1 # r1))))
          else step_atom doc stk s)"

text \<open>
  After a value: at the top level only whitespace may follow; in an array \<^verbatim>\<open>,\<close> or \<^verbatim>\<open>]\<close>;
  in an object \<^verbatim>\<open>,\<close> and the next key, or \<^verbatim>\<open>}\<close>.
\<close>

definition step_after :: "pystr \<Rightarrow> frame list \<Rightarrow> pyval \<Rightarrow> pystr \<Rightarrow> (exn + pyval) + cfg" where
  "step_after doc stk v s =
     (case stk of
        [] \<Rightarrow>
          (if skip_ws s = [] then Inl (Inr v)
           else Inl (Inl (error_at (u ''Extra data'') doc (skip_ws s))))
      | InArray vs # stk1 \<Rightarrow>
          (case skip_ws s of
             [] \<Rightarrow> Inl (Inl (error_at ((u ''Expecting '') @ quoted (u '','') @ (u '' delimiter'')) doc []))
           | c # r \<Rightarrow>
               if c = (ch CHR '']'') then Inr (After stk1 (PyList (rev (v # vs))) r)
               else if c = (ch CHR '','') then Inr (Value (InArray (v # vs) # stk1) (skip_ws r))
               else Inl (Inl (error_at ((u ''Expecting '') @ quoted (u '','') @ (u '' delimiter'')) doc (c # r))))
      | InObject pairs key # stk1 \<Rightarrow>
          (case skip_ws s of
             [] \<Rightarrow> Inl (Inl (error_at ((u ''Expecting '') @ quoted (u '','') @ (u '' delimiter'')) doc []))
           | c # r \<Rightarrow>
               if c = (ch CHR ''}'') then
                 Inr (After stk1 (PyDict (dict_of_pairs (rev ((key, v) # pairs)))) r)
               else if c = (ch CHR '','') then
                 (case skip_ws r of
                    [] \<Rightarrow> Inl (Inl (error_at property_name_expected doc []))
                  | c1 # r1 \<Rightarrow>
                      if c1 = (ch CHR ''\"'') then step_key doc stk1 ((key, v) # pairs) r1
                      else Inl (Inl (error_at property_name_expected doc (c1 # r1))))
               else Inl (Inl (error_at ((u ''Expecting '') @ quoted (u '','') @ (u '' delimiter'')) doc (c # r)))))"

definition step :: "nat \<Rightarrow> pystr \<Rightarrow> cfg \<Rightarrow> (exn + pyval) + cfg" where
  "step room doc c =
     (case c of Value stk s \<Rightarrow> step_value room doc stk s | After stk v s \<Rightarrow> step_after doc stk v s)"

text \<open>
  A step that does not finish leaves less input, or leaves the input and closes the
  reading of a value: the measure below decreases.
\<close>

fun cfg_measure :: "cfg \<Rightarrow> nat" where
  "cfg_measure (Value stk s) = 2 * length s + 1"
| "cfg_measure (After stk v s) = 2 * length s"

text \<open>
  A step that does not finish consumes input: the lexers return a proper suffix of what
  they were given, and so the measure decreases.
\<close>

lemma scanstring_length: "scanstring s acc = Inr (k, r) \<Longrightarrow> length r < length s"
proof (induction "length s" arbitrary: s acc rule: less_induct)
  case less
  show ?case
  proof (cases s)
    case Nil
    with less.prems show ?thesis by simp
  next
    case (Cons c cs)
    note s = Cons
    show ?thesis
    proof (cases "c = ch CHR ''\"''")
      case True
      with less.prems s show ?thesis by simp
    next
      case nq: False
      show ?thesis
      proof (cases "c = 0x5C")
        case False
        with nq less.prems s have "scanstring cs (c # acc) = Inr (k, r)"
          by (simp split: if_splits)
        from less.hyps[OF _ this] s show ?thesis by simp
      next
        case bs: True
        show ?thesis
        proof (cases cs)
          case Nil
          with bs nq less.prems s show ?thesis by simp
        next
          case (Cons e es)
          note cs = Cons
          show ?thesis
          proof (cases "e = ch CHR ''u''")
            case True
            with bs nq less.prems s cs obtain x used where
              "scanstring (drop used es) (x # acc) = Inr (k, r)"
              by (cases "scan_u_escape es") auto
            moreover have "length (drop used es) < length s" using s cs by simp
            ultimately have "length r < length (drop used es)" using less.hyps by blast
            then show ?thesis using s cs by simp
          next
            case False
            with bs nq less.prems s cs obtain x where
              "scanstring es (x # acc) = Inr (k, r)"
              by (cases "unescape e") auto
            from less.hyps[OF _ this] s cs show ?thesis by simp
          qed
        qed
      qed
    qed
  qed
qed

lemma skip_ws_length: "length (skip_ws s) \<le> length s"
  by (simp add: skip_ws_def length_dropWhile_le)

lemma skip_ws_Cons_length: "skip_ws s = a # b \<Longrightarrow> length b < length s"
  using skip_ws_length[of s] by simp

lemma lex_exponent_length: "length (snd (lex_exponent s)) \<le> length s"
proof (cases s)
  case Nil
  then show ?thesis by (simp add: lex_exponent_def)
next
  case (Cons c r)
  have "length (dropWhile is_digit (tl r)) \<le> length r"
    by (rule le_trans[OF length_dropWhile_le]) simp
  moreover have "length (dropWhile is_digit r) \<le> length r"
    by (rule length_dropWhile_le)
  ultimately show ?thesis using Cons
    by (simp add: lex_exponent_def Let_def)
qed

lemma lex_number_length:
  assumes lx: "lex_number s = Some (x, r)"
  shows "length r < length s"
proof -
  define s1 where "s1 = (if s \<noteq> [] \<and> hd s = (ch CHR ''-'') then tl s else s)"
  define ip where "ip = (if hd s1 = (ch CHR ''0'') then (u ''0'') else takeWhile is_digit s1)"
  define s2 where "s2 = drop (length ip) s1"
  define fp where "fp = (if s2 \<noteq> [] \<and> hd s2 = (ch CHR ''.'') then takeWhile is_digit (tl s2) else [])"
  define s3 where "s3 = (if fp = [] then s2 else drop (Suc (length fp)) s2)"
  have unf: "lex_number s = (if s1 = [] \<or> \<not> is_digit (hd s1) then None
       else if fp = [] \<and> fst (lex_exponent s3) = None then
                (if length ip > int_max_str_digits
                   then Some (Inl (digits_limit_error (length ip)), snd (lex_exponent s3))
                 else Some (Inr (PyInt (if s \<noteq> [] \<and> hd s = (ch CHR ''-'') then - int_of_digits ip else int_of_digits ip)), snd (lex_exponent s3)))
              else Some (Inr (PyFloat (float_of_literal (s \<noteq> [] \<and> hd s = (ch CHR ''-'')) ip fp (case fst (lex_exponent s3) of None \<Rightarrow> 0 | Some x \<Rightarrow> x))), snd (lex_exponent s3)))"
    unfolding lex_number_def Let_def s1_def ip_def s2_def fp_def s3_def by simp
  from lx have ok: "s1 \<noteq> []" "is_digit (hd s1)"
    unfolding unf by (simp_all split: if_splits)
  from lx ok have r: "r = snd (lex_exponent s3)"
    unfolding unf by (simp split: if_splits)
  from ok have "ip \<noteq> []"
    by (cases s1) (simp_all add: ip_def)
  with ok have "length s2 < length s1"
    by (cases s1) (simp_all add: s2_def)
  moreover have "length s1 \<le> length s" by (simp add: s1_def)
  moreover have "length s3 \<le> length s2" by (simp add: s3_def)
  moreover have "length r \<le> length s3" unfolding r by (rule lex_exponent_length)
  ultimately show ?thesis by linarith
qed

lemma step_key_decreases:
  assumes sk: "step_key doc stk pairs s = Inr d"
  shows "cfg_measure d < 2 * length s"
proof -
  from sk obtain k r where sc: "scanstring s [] = Inr (k, r)"
    by (cases "scanstring s []") (auto simp: step_key_def)
  with sk obtain a r1 where w: "skip_ws r = a # r1"
    by (cases "skip_ws r") (auto simp: step_key_def)
  with sk sc have d: "d = Value (InObject pairs k # stk) (skip_ws r1)"
    by (simp add: step_key_def split: if_splits)
  have "length r < length s" using sc by (rule scanstring_length)
  moreover have "length r1 < length r" using w by (rule skip_ws_Cons_length)
  moreover have "length (skip_ws r1) \<le> length r1" by (rule skip_ws_length)
  ultimately show ?thesis by (simp add: d)
qed

lemma step_atom_decreases:
  assumes sa: "step_atom doc stk s = Inr d"
  shows "cfg_measure d \<le> 2 * length s"
proof (cases "prefix (u ''null'') s \<or> prefix (u ''true'') s \<or> prefix (u ''false'') s")
  case True
  with sa show ?thesis by (auto simp: step_atom_def split: if_splits)
next
  case False
  show ?thesis
  proof (cases "lex_number s")
    case None
    with sa False show ?thesis by (auto simp: step_atom_def split: if_splits)
  next
    case (Some a)
    obtain x r1 where a: "a = (x, r1)" by (cases a)
    from lex_number_length[of s x r1] Some a have "length r1 < length s" by simp
    with sa False Some a show ?thesis by (cases x) (auto simp: step_atom_def)
  qed
qed

lemma step_value_decreases:
  assumes sv: "step_value room doc stk s = Inr d"
  shows "cfg_measure d < 2 * length s + 1"
proof (cases s)
  case Nil
  with sv show ?thesis by (simp add: step_value_def)
next
  case (Cons c r)
  show ?thesis
  proof (cases "c = ch CHR ''\"''")
    case True
    with sv Cons obtain str r1 where "scanstring r [] = Inr (str, r1)" "d = After stk (PyStr str) r1"
      by (cases "scanstring r []") (auto simp: step_value_def)
    with scanstring_length[of r "[]" str r1] Cons show ?thesis by simp
  next
    case n1: False
    show ?thesis
    proof (cases "c = ch CHR ''{''")
      case True
      with sv Cons have fits: "\<not> room \<le> length stk"
        by (auto simp: step_value_def split: if_splits)
      with sv Cons True obtain c1 r1 where w: "skip_ws r = c1 # r1"
        by (cases "skip_ws r") (auto simp: step_value_def)
      from skip_ws_Cons_length[OF w] have lt: "length r1 < length r" .
      from sv Cons True w fits have "d = After stk (PyDict []) r1 \<or> step_key doc stk [] r1 = Inr d"
        by (simp add: step_value_def split: if_splits)
      then show ?thesis
      proof
        assume "d = After stk (PyDict []) r1"
        with lt Cons show ?thesis by simp
      next
        assume "step_key doc stk [] r1 = Inr d"
        from step_key_decreases[OF this] lt Cons show ?thesis by simp
      qed
    next
      case n2: False
      show ?thesis
      proof (cases "c = ch CHR ''[''")
        case True
        with sv Cons have fits: "\<not> room \<le> length stk"
          by (auto simp: step_value_def split: if_splits)
        show ?thesis
        proof (cases "skip_ws r")
          case Nil
          with sv Cons True fits have "d = Value (InArray [] # stk) []"
            by (simp add: step_value_def)
          then show ?thesis using Cons by simp
        next
          case w: (Cons c1 r1)
          from skip_ws_Cons_length[OF w] have lt: "length r1 < length r" .
          from sv Cons True w fits
          have "d = After stk (PyList []) r1 \<or> d = Value (InArray [] # stk) (c1 # r1)"
            by (simp add: step_value_def split: if_splits)
          with lt Cons show ?thesis by auto
        qed
      next
        case n3: False
        from sv Cons n1 n2 n3 have "step_atom doc stk s = Inr d"
          by (simp add: step_value_def)
        from step_atom_decreases[OF this] show ?thesis by simp
      qed
    qed
  qed
qed

lemma step_after_decreases:
  assumes sa: "step_after doc stk v s = Inr d"
  shows "cfg_measure d < 2 * length s"
proof (cases stk)
  case Nil
  with sa show ?thesis by (simp add: step_after_def split: if_splits)
next
  case (Cons f stk1)
  from sa Cons obtain c r where w: "skip_ws s = c # r"
    by (cases "skip_ws s"; cases f) (auto simp: step_after_def)
  from skip_ws_Cons_length[OF w] have lt: "length r < length s" .
  have lt2: "length (skip_ws r) < length s" using lt skip_ws_length[of r] by simp
  show ?thesis
  proof (cases f)
    case (InArray vs)
    with sa Cons w have "d = After stk1 (PyList (rev (v # vs))) r
        \<or> d = Value (InArray (v # vs) # stk1) (skip_ws r)"
      by (simp add: step_after_def split: if_splits)
    with lt lt2 show ?thesis by auto
  next
    case (InObject pairs k)
    with sa Cons w have "d = After stk1 (PyDict (dict_of_pairs (rev ((k, v) # pairs)))) r
        \<or> (\<exists>c1 r1. skip_ws r = c1 # r1 \<and> step_key doc stk1 ((k, v) # pairs) r1 = Inr d)"
      by (cases "skip_ws r") (simp_all add: step_after_def split: if_splits)
    then show ?thesis
    proof
      assume "d = After stk1 (PyDict (dict_of_pairs (rev ((k, v) # pairs)))) r"
      with lt show ?thesis by simp
    next
      assume "\<exists>c1 r1. skip_ws r = c1 # r1 \<and> step_key doc stk1 ((k, v) # pairs) r1 = Inr d"
      then obtain c1 r1 where w1: "skip_ws r = c1 # r1"
        and sk: "step_key doc stk1 ((k, v) # pairs) r1 = Inr d" by blast
      from skip_ws_Cons_length[OF w1] lt step_key_decreases[OF sk] show ?thesis by simp
    qed
  qed
qed

lemma step_decreases: "step room doc c = Inr c' \<Longrightarrow> cfg_measure c' < cfg_measure c"
  by (cases c) (auto simp: step_def dest: step_value_decreases step_after_decreases)

text \<open>The machine runs until a step finishes with an exception or the decoded value.\<close>

function run :: "nat \<Rightarrow> pystr \<Rightarrow> cfg \<Rightarrow> exn + pyval" where
  "run room doc c = (case step room doc c of Inl outcome \<Rightarrow> outcome | Inr c' \<Rightarrow> run room doc c')"
  by pat_completeness auto
termination
  by (relation "measure (\<lambda>(room, doc, c). cfg_measure c)") (auto dest: step_decreases)

declare run.simps [simp del]

text \<open>
  \<^verbatim>\<open>json.loads(s)\<close> for a string \<open>s\<close>: a leading byte order mark is refused, whitespace
  is skipped, one value is read, and only whitespace may follow it.
\<close>

definition json_loads :: "nat \<Rightarrow> pystr \<Rightarrow> exn + pyval" where
  "json_loads room s =
     (if prefix [0xFEFF] s
        then Inl (decode_error (u ''Unexpected UTF-8 BOM (decode using utf-8-sig)'') s 0)
      else run room s (Value [] (skip_ws s)))"

section \<open>The Normalizer with the library decoder\<close>

definition parse_score_response :: "nat \<Rightarrow> pyval \<Rightarrow> exn + pydict" where
  "parse_score_response room response_text =
     parse_score_response_with (json_loads room) response_text"

text \<open>A field of the returned dictionary; \<open>None\<close> when the method raised or the key is absent.\<close>

definition result_field :: "exn + pydict \<Rightarrow> pystr \<Rightarrow> pyval option" where
  "result_field res k = (case res of Inl e \<Rightarrow> None | Inr r \<Rightarrow> dict_get r k)"

section \<open>Facts about the dictionary operations and the Normalizer\<close>

lemma has_key_dict_get: "has_key d k \<longleftrightarrow> dict_get d k \<noteq> None"
  by (simp add: has_key_def dict_get_def map_of_eq_None_iff)

lemma dict_get_dict_set: "dict_get (dict_set k v d) k' = (if k' = k then Some v else dict_get d k')"
  by (simp add: dict_get_def dict_set_def update_conv')

lemma has_key_dict_set: "has_key (dict_set k v d) k' \<longleftrightarrow> k' = k \<or> has_key d k'"
  by (simp add: has_key_dict_get dict_get_dict_set)

lemma dict_set_absent: "\<not> has_key d k \<Longrightarrow> dict_set k v d = d @ [(k, v)]"
  by (induction d) (auto simp: has_key_def dict_set_def)

lemma dict_get_Nil: "dict_get [] k = None"
  by (simp add: dict_get_def)

lemma dict_get_Cons: "dict_get ((k, v) # d) k' = (if k' = k then Some v else dict_get d k')"
  by (simp add: dict_get_def)

lemma dict_get_fill_defaults:
  "dict_get (fill_defaults d ds) k = (case dict_get d k of Some v \<Rightarrow> Some v | None \<Rightarrow> dict_get ds k)"
proof (induction ds arbitrary: d)
  case Nil
  then show ?case by (simp add: dict_get_Nil split: option.splits)
next
  case (Cons a ds)
  obtain key dv where a: "a = (key, dv)" by (cases a)
  show ?case
    unfolding a fill_defaults.simps Cons.IH
    by (auto simp: has_key_dict_get dict_get_dict_set dict_get_Cons split: option.splits)
qed

lemma has_key_fill_defaults: "has_key (fill_defaults d ds) k \<longleftrightarrow> has_key d k \<or> has_key ds k"
  by (auto simp: has_key_dict_get dict_get_fill_defaults split: option.splits)

lemma fill_defaults_append:
  "distinct (map fst ds) \<Longrightarrow> fill_defaults d ds = d @ filter (\<lambda>kv. \<not> has_key d (fst kv)) ds"
proof (induction ds arbitrary: d)
  case Nil
  then show ?case by simp
next
  case (Cons a ds)
  obtain key dv where a: "a = (key, dv)" by (cases a)
  from Cons.prems a have nk: "key \<notin> fst ` set ds" and dis: "distinct (map fst ds)" by auto
  have same: "filter (\<lambda>kv. \<not> has_key (d @ [(key, dv)]) (fst kv)) ds = filter (\<lambda>kv. \<not> has_key d (fst kv)) ds"
    using nk by (intro filter_cong) (auto simp: has_key_def)
  show ?case
  proof (cases "has_key d key")
    case True
    then show ?thesis using Cons.IH[OF dis] a by simp
  next
    case False
    then show ?thesis using Cons.IH[OF dis, of "d @ [(key, dv)]"] a same
      by (simp add: dict_set_absent)
  qed
qed

lemma normalize_parsed_dict:
  assumes "dict_get d (u ''score'') = Some v" "py_int v = Inr n"
  shows "normalize_parsed (PyDict d) =
           Inr (fill_defaults (dict_set (u ''score'') (PyInt (max 0 (min 100 n))) d) defaults)"
  using assms by (simp add: normalize_parsed_def has_key_dict_get)

lemma normalize_parsed_dict_error:
  assumes "dict_get d (u ''score'') = Some v" "py_int v = Inl e"
  shows "normalize_parsed (PyDict d) = Inl e"
  using assms by (simp add: normalize_parsed_def has_key_dict_get)

lemma normalize_parsed_missing:
  assumes "\<not> has_key d (u ''score'')"
  shows "normalize_parsed (PyDict d) = Inl (ValueError ((u ''Response missing '') @ quoted (u ''score'') @ (u '' field'')))"
  using assms by (simp add: normalize_parsed_def)

lemma parse_with_decoded:
  assumes "loads (extract_object (strip_fences text)) = Inr result"
  shows "parse_score_response_with loads (PyStr text) =
           (case normalize_parsed result of
              Inr r \<Rightarrow> Inr r
            | Inl e \<Rightarrow> if is_JSONDecodeError e then decode_error_result text e
                       else Inr (generic_error_result e))"
  using assms by (simp add: parse_score_response_with_def try_parse_def split: sum.splits)

lemma int_of_str_not_decode_error: "int_of_str s = Inl e \<Longrightarrow> \<not> is_JSONDecodeError e"
  by (auto simp: int_of_str_def Let_def digits_limit_error_def split: if_splits option.splits prod.splits)

lemma py_int_not_decode_error: "py_int v = Inl e \<Longrightarrow> \<not> is_JSONDecodeError e"
  by (induction v rule: py_int.induct) (auto dest: int_of_str_not_decode_error)

lemma score_in_not_decode_error: "score_in v = Inl e \<Longrightarrow> \<not> is_JSONDecodeError e"
  by (induction v rule: score_in.induct) auto

lemma normalize_parsed_not_decode_error:
  assumes "normalize_parsed result = Inl e"
  shows "\<not> is_JSONDecodeError e"
proof (cases "score_in result")
  case (Inl a)
  with assms have "e = a" by (simp add: normalize_parsed_def)
  with Inl show ?thesis by (simp add: score_in_not_decode_error)
next
  case (Inr b)
  show ?thesis
  proof (cases b)
    case False
    with Inr assms show ?thesis by (auto simp: normalize_parsed_def)
  next
    case True
    with Inr assms show ?thesis
      by (cases result)
         (auto simp: normalize_parsed_def split: option.splits sum.splits dest: py_int_not_decode_error)
  qed
qed

lemma parse_with_success:
  assumes "loads (extract_object (strip_fences text)) = Inr (PyDict d)"
    and "dict_get d (u ''score'') = Some v" and "py_int v = Inr n"
  shows "parse_score_response_with loads (PyStr text) =
           Inr (fill_defaults (dict_set (u ''score'') (PyInt (max 0 (min 100 n))) d) defaults)"
  using assms by (simp add: parse_with_decoded normalize_parsed_dict)

lemma parse_with_conversion_error:
  assumes "loads (extract_object (strip_fences text)) = Inr (PyDict d)"
    and "dict_get d (u ''score'') = Some v" and "py_int v = Inl e"
  shows "parse_score_response_with loads (PyStr text) = Inr (generic_error_result e)"
  using assms py_int_not_decode_error[of v e]
  by (simp add: parse_with_decoded normalize_parsed_dict_error)

lemma score_of_success:
  "dict_get (fill_defaults (dict_set k x d) ds) k = Some x"
  by (simp add: dict_get_fill_defaults dict_get_dict_set)

lemma trunc_rat_floor_ceiling: "trunc_rat q = (if q < 0 then \<lceil>q\<rceil> else \<lfloor>q\<rfloor>)"
  by (simp add: trunc_rat_def ceiling_def)

lemma distinct_defaults: "distinct (map fst defaults)"
  by (simp add: defaults_def)

lemma has_key_dict_set_present: "has_key d k \<Longrightarrow> has_key (dict_set k v d) k' = has_key d k'"
  by (auto simp: has_key_dict_set)

section \<open>Evaluation on concrete texts\<close>

text \<open>The equations that evaluate the decoder and the Normalizer on a given text.\<close>

lemmas decoder_eval = json_loads_def run.simps step_def step_value_def step_after_def step_key_def
  step_atom_def skip_ws_def json_ws_def unescape_def dict_of_pairs_def dict_set_def
  lex_number_def lex_exponent_def is_digit_def int_of_digits_def digit_val_def
  decimal_value_def decimal_zeros_def int_max_str_digits_def Let_def property_name_expected_def

lemmas text_eval = strip_fences_def extract_object_def search_braces_def strip_def py_isspace_def
  startswith_def endswith_def

lemmas normalizer_eval = parse_score_response_def parse_score_response_with_def try_parse_def
  strip_fences_def extract_object_def search_braces_def strip_def py_isspace_def
  startswith_def endswith_def normalize_parsed_def has_key_def dict_get_def defaults_def
  quoted_def

section \<open>The claims\<close>

text \<open>
  Claim C7. For the raw text
  \<^verbatim>\<open>```json\n{"score": 82, "risk_level": "low"}\n```\<close>
  the Normalizer strips the opening fence with its \<^verbatim>\<open>json\<close> tag and the trailing fence
  (lines 263 to 274 leave exactly the object text), and returns score 82, risk level
  \<^verbatim>\<open>low\<close>, every narrative field equal to its default placeholder and every list field
  empty. This holds whenever the recursion guard lets the decoder open one container.
\<close>

theorem fenced_example:
  \<open>strip_fences (u ''```json\<newline>{"score": 82, "risk_level": "low"}\<newline>```'')
     = u ''{"score": 82, "risk_level": "low"}''
   \<and> extract_object (u ''{"score": 82, "risk_level": "low"}'')
     = u ''{"score": 82, "risk_level": "low"}''
   \<and> parse_score_response (Suc room)
       (PyStr (u ''```json\<newline>{"score": 82, "risk_level": "low"}\<newline>```'')) =
     Inr [(u ''score'', PyInt 82),
          (u ''risk_level'', PyStr (u ''low'')),
          (u ''executive_summary'', PyStr (u ''Analysis in progress...'')),
          (u ''market_analysis'', PyStr (u ''Market data being analyzed...'')),
          (u ''origin_analysis'', PyStr (u ''Origin analysis pending...'')),
          (u ''buyer_profile'', PyStr (u ''Buyer analysis pending...'')),
          (u ''price_analysis'', PyStr (u ''Price analysis pending...'')),
          (u ''payment_logistics'', PyStr (u ''Payment analysis pending...'')),
          (u ''red_flags'', PyList []),
          (u ''unusual_patterns'', PyList []),
          (u ''strengths'', PyList []),
          (u ''next_steps'', PyList []),
          (u ''reasoning'', PyList []),
          (u ''recommendation'', PyStr (u ''Review detailed analysis''))]\<close>
  by (simp add: normalizer_eval decoder_eval)

text \<open>
  Claim C5, as amended. On a successful decode whose \<^verbatim>\<open>score\<close> is a finite number, the
  resulting score is the integer truncation of that value (towards zero) saturated into
  \<open>[0, 100]\<close>: a value above 100 gives 100, a value below 0 gives 0, and it is not rejected.
  A score that is a non-finite float (\<^verbatim>\<open>Infinity\<close>, \<^verbatim>\<open>-Infinity\<close>, \<^verbatim>\<open>NaN\<close>) is rejected:
  \<^verbatim>\<open>int\<close> raises and the result is the generic error result with score 50.
\<close>

theorem score_saturated:
  assumes "loads (extract_object (strip_fences text)) = Inr (PyDict d)"
    and "dict_get d (u ''score'') = Some v"
  shows "(\<forall>n. v = PyInt n \<longrightarrow>
            result_field (parse_score_response_with loads (PyStr text)) (u ''score'')
              = Some (PyInt (max 0 (min 100 n))))
       \<and> (\<forall>q. v = PyFloat (Finite q) \<longrightarrow>
            result_field (parse_score_response_with loads (PyStr text)) (u ''score'')
              = Some (PyInt (max 0 (min 100 (if q < 0 then \<lceil>q\<rceil> else \<lfloor>q\<rfloor>)))))
       \<and> (v = PyFloat PosInf \<or> v = PyFloat NegInf \<or> v = PyFloat NaN \<longrightarrow>
            (\<exists>e. parse_score_response_with loads (PyStr text) = Inr (generic_error_result e))
            \<and> result_field (parse_score_response_with loads (PyStr text)) (u ''score'') = Some (PyInt 50))"
proof (intro conjI allI impI)
  fix n assume "v = PyInt n"
  then have "py_int v = Inr n" by simp
  from parse_with_success[of loads _ d v, OF assms this] show
    "result_field (parse_score_response_with loads (PyStr text)) (u ''score'') = Some (PyInt (max 0 (min 100 n)))"
    by (simp add: result_field_def score_of_success)
next
  fix q assume "v = PyFloat (Finite q)"
  then have "py_int v = Inr (trunc_rat q)" by simp
  from parse_with_success[of loads _ d v, OF assms this] show
    "result_field (parse_score_response_with loads (PyStr text)) (u ''score'')
       = Some (PyInt (max 0 (min 100 (if q < 0 then \<lceil>q\<rceil> else \<lfloor>q\<rfloor>))))"
    by (simp add: result_field_def score_of_success trunc_rat_floor_ceiling)
next
  assume nf: "v = PyFloat PosInf \<or> v = PyFloat NegInf \<or> v = PyFloat NaN"
  then obtain e where "py_int v = Inl e" by auto
  from parse_with_conversion_error[of loads _ d v, OF assms this]
  have r: "parse_score_response_with loads (PyStr text) = Inr (generic_error_result e)" .
  then show "\<exists>e. parse_score_response_with loads (PyStr text) = Inr (generic_error_result e)"
    by blast
  from r show "result_field (parse_score_response_with loads (PyStr text)) (u ''score'') = Some (PyInt 50)"
    by (simp add: result_field_def generic_error_result_def dict_get_def)
qed

text \<open>
  The theorem at the text \<^verbatim>\<open>Sure, here you go: {"score": 105}\<close>: the object is found after
  the prose and the score is 100.
\<close>

theorem score_saturated_witness:
  \<open>json_loads 900 (extract_object (strip_fences (u ''Sure, here you go: {"score": 105}'')))
      = Inr (PyDict [((u ''score''), PyInt 105)])
   \<and> dict_get [((u ''score''), PyInt 105)] (u ''score'') = Some (PyInt 105)
   \<and> result_field (parse_score_response 900 (PyStr (u ''Sure, here you go: {"score": 105}''))) (u ''score'')
      = Some (PyInt 100)\<close>
proof -
  have dec: \<open>json_loads 900 (extract_object (strip_fences (u ''Sure, here you go: {"score": 105}'')))
      = Inr (PyDict [((u ''score''), PyInt 105)])\<close>
    by (simp add: text_eval decoder_eval)
  have get: "dict_get [((u ''score''), PyInt 105)] (u ''score'') = Some (PyInt 105)"
    by (simp add: dict_get_def)
  from score_saturated[of "json_loads 900" _ "[(u ''score'', PyInt 105)]", OF dec get] dec get show ?thesis
    by (simp add: parse_score_response_def)
qed

text \<open>
  The claim as stated fails for \<^verbatim>\<open>{"score": Infinity}\<close>: the decoder accepts the text, the
  score is a float above 100, and the result has score 50, not 100.
\<close>

theorem infinite_score_rejected:
  \<open>json_loads 900 (u ''{"score": Infinity}'') = Inr (PyDict [((u ''score''), PyFloat PosInf)])
   \<and> parse_score_response 900 (PyStr (u ''{"score": Infinity}''))
      = Inr (generic_error_result (OverflowError (u ''cannot convert float infinity to integer'')))
   \<and> result_field (parse_score_response 900 (PyStr (u ''{"score": Infinity}''))) (u ''score'') = Some (PyInt 50)\<close>
  by (simp add: normalizer_eval decoder_eval result_field_def generic_error_result_def)


text \<open>
  Claim C6, as amended. On a successful parse every field that the parsed object supplies,
  other than \<^verbatim>\<open>score\<close>, is passed through to the result unchanged and in its place;
  \<^verbatim>\<open>score\<close> is replaced by its integer value clamped to \<open>[0, 100]\<close>; and only the fields
  that are missing are added, each with its fixed default, after the supplied ones and in
  the order of the defaults. No other key is added.
\<close>

theorem supplied_fields_kept:
  assumes "loads (extract_object (strip_fences text)) = Inr (PyDict d)"
    and "dict_get d (u ''score'') = Some v" and "py_int v = Inr n"
  shows "parse_score_response_with loads (PyStr text)
           = Inr (dict_set (u ''score'') (PyInt (max 0 (min 100 n))) d
                  @ filter (\<lambda>kv. \<not> has_key d (fst kv)) defaults)
       \<and> result_field (parse_score_response_with loads (PyStr text)) (u ''score'')
           = Some (PyInt (max 0 (min 100 n)))
       \<and> (\<forall>k. k \<noteq> (u ''score'') \<longrightarrow> has_key d k \<longrightarrow>
             result_field (parse_score_response_with loads (PyStr text)) k = dict_get d k)
       \<and> (\<forall>k. \<not> has_key d k \<longrightarrow>
             result_field (parse_score_response_with loads (PyStr text)) k = dict_get defaults k)"
proof -
  let ?x = "PyInt (max 0 (min 100 n))"
  have r: "parse_score_response_with loads (PyStr text) = Inr (fill_defaults (dict_set (u ''score'') ?x d) defaults)"
    using parse_with_success[of loads _ d v, OF assms] .
  have hk: "has_key d (u ''score'')" using assms(2) by (simp add: has_key_dict_get)
  have "fill_defaults (dict_set (u ''score'') ?x d) defaults
          = dict_set (u ''score'') ?x d @ filter (\<lambda>kv. \<not> has_key (dict_set (u ''score'') ?x d) (fst kv)) defaults"
    by (rule fill_defaults_append[OF distinct_defaults])
  also have "\<dots> = dict_set (u ''score'') ?x d @ filter (\<lambda>kv. \<not> has_key d (fst kv)) defaults"
    using has_key_dict_set_present[OF hk] by simp
  finally have shape: "fill_defaults (dict_set (u ''score'') ?x d) defaults
      = dict_set (u ''score'') ?x d @ filter (\<lambda>kv. \<not> has_key d (fst kv)) defaults" .
  have kept: "result_field (parse_score_response_with loads (PyStr text)) k = dict_get d k"
    if "k \<noteq> (u ''score'')" "has_key d k" for k
    using that by (auto simp: r result_field_def dict_get_fill_defaults dict_get_dict_set has_key_dict_get)
  have filled: "result_field (parse_score_response_with loads (PyStr text)) k = dict_get defaults k"
    if "\<not> has_key d k" for k
    using that hk by (auto simp: r result_field_def dict_get_fill_defaults dict_get_dict_set has_key_dict_get)
  have whole: "parse_score_response_with loads (PyStr text)
      = Inr (dict_set (u ''score'') ?x d @ filter (\<lambda>kv. \<not> has_key d (fst kv)) defaults)"
    using r shape by (rule trans[OF _ arg_cong[where f=Inr]])
  have sc: "result_field (parse_score_response_with loads (PyStr text)) (u ''score'') = Some ?x"
    using r by (simp add: result_field_def score_of_success)
  show ?thesis
    using whole sc kept filled by blast
qed

text \<open>
  The theorem at the text \<^verbatim>\<open>{"score": 40, "red_flags": ["pricing 22% below LME"]}\<close>: the
  supplied list is kept and the twelve other fields get their defaults.
\<close>

theorem supplied_fields_kept_witness:
  \<open>json_loads 900 (extract_object (strip_fences (u ''{"score": 40, "red_flags": ["pricing 22% below LME"]}'')))
      = Inr (PyDict [((u ''score''), PyInt 40), ((u ''red_flags''), PyList [PyStr (u ''pricing 22% below LME'')])])
   \<and> dict_get [((u ''score''), PyInt 40), ((u ''red_flags''), PyList [PyStr (u ''pricing 22% below LME'')])] (u ''score'')
      = Some (PyInt 40)
   \<and> py_int (PyInt 40) = Inr 40
   \<and> parse_score_response 900 (PyStr (u ''{"score": 40, "red_flags": ["pricing 22% below LME"]}'')) =
       Inr [((u ''score''), PyInt 40),
            ((u ''red_flags''), PyList [PyStr (u ''pricing 22% below LME'')]),
            ((u ''executive_summary''), PyStr (u ''Analysis in progress...'')),
            ((u ''market_analysis''), PyStr (u ''Market data being analyzed...'')),
            ((u ''origin_analysis''), PyStr (u ''Origin analysis pending...'')),
            ((u ''buyer_profile''), PyStr (u ''Buyer analysis pending...'')),
            ((u ''price_analysis''), PyStr (u ''Price analysis pending...'')),
            ((u ''payment_logistics''), PyStr (u ''Payment analysis pending...'')),
            ((u ''unusual_patterns''), PyList []),
            ((u ''strengths''), PyList []),
            ((u ''next_steps''), PyList []),
            ((u ''reasoning''), PyList []),
            ((u ''recommendation''), PyStr (u ''Review detailed analysis'')),
            ((u ''risk_level''), PyStr (u ''medium''))]\<close>
proof -
  let ?d = "[((u ''score''), PyInt 40), ((u ''red_flags''), PyList [PyStr (u ''pricing 22% below LME'')])]"
  have dec: \<open>json_loads 900 (extract_object (strip_fences (u ''{"score": 40, "red_flags": ["pricing 22% below LME"]}'')))
      = Inr (PyDict ?d)\<close>
    by (simp add: text_eval decoder_eval)
  have get: "dict_get ?d (u ''score'') = Some (PyInt 40)"
    by (simp add: dict_get_def)
  have cv: "py_int (PyInt 40) = Inr 40" by simp
  from supplied_fields_kept[of "json_loads 900" _ ?d "PyInt 40" 40, OF dec get cv] dec get cv
  show ?thesis
    by (simp add: parse_score_response_def dict_set_def has_key_def defaults_def)
qed

text \<open>
  The claim as stated fails for \<^verbatim>\<open>{"score": 105}\<close>: the supplied \<^verbatim>\<open>score\<close> is not passed
  through unchanged.
\<close>

theorem supplied_score_changed:
  \<open>json_loads 900 (u ''{"score": 105}'') = Inr (PyDict [((u ''score''), PyInt 105)])
   \<and> result_field (parse_score_response 900 (PyStr (u ''{"score": 105}''))) (u ''score'') = Some (PyInt 100)
   \<and> result_field (parse_score_response 900 (PyStr (u ''{"score": 105}''))) (u ''score'')
       \<noteq> dict_get [((u ''score''), PyInt 105)] (u ''score'')\<close>
  by (simp add: normalizer_eval decoder_eval result_field_def)

text \<open>
  Claim C3, as amended. If the extracted span decodes to an object without a \<^verbatim>\<open>score\<close>
  key, the \<^verbatim>\<open>ValueError\<close> raised at line 285 is not a \<^verbatim>\<open>JSONDecodeError\<close>: the catch-all
  handler of lines 344 to 364 runs. The score is 50 whatever the raw text holds, the
  executive summary is the warning with the error message and without the raw text, and
  \<^verbatim>\<open>red_flags\<close> has the error message as its single entry.
\<close>

theorem missing_score_generic:
  assumes "loads (extract_object (strip_fences text)) = Inr (PyDict d)"
    and "\<not> has_key d (u ''score'')"
  shows "parse_score_response_with loads (PyStr text)
           = Inr (generic_error_result (ValueError ((u ''Response missing '') @ quoted (u ''score'') @ (u '' field''))))
       \<and> result_field (parse_score_response_with loads (PyStr text)) (u ''score'') = Some (PyInt 50)
       \<and> result_field (parse_score_response_with loads (PyStr text)) (u ''executive_summary'')
           = Some (PyStr ((u ''Warning: Error: Response missing '') @ quoted (u ''score'') @ (u '' field'')))
       \<and> result_field (parse_score_response_with loads (PyStr text)) (u ''red_flags'')
           = Some (PyList [PyStr ((u ''Response missing '') @ quoted (u ''score'') @ (u '' field''))])"
proof -
  have "parse_score_response_with loads (PyStr text)
           = Inr (generic_error_result (ValueError ((u ''Response missing '') @ quoted (u ''score'') @ (u '' field''))))"
    using assms by (simp add: parse_with_decoded normalize_parsed_missing)
  then show ?thesis
    by (simp add: result_field_def generic_error_result_def dict_get_def)
qed

text \<open>The theorem at the text \<^verbatim>\<open>{"x": 1}\<close>.\<close>

theorem missing_score_generic_witness:
  \<open>json_loads 900 (extract_object (strip_fences (u ''{"x": 1}''))) = Inr (PyDict [((u ''x''), PyInt 1)])
   \<and> \<not> has_key [((u ''x''), PyInt 1)] (u ''score'')
   \<and> result_field (parse_score_response 900 (PyStr (u ''{"x": 1}''))) (u ''score'') = Some (PyInt 50)
   \<and> result_field (parse_score_response 900 (PyStr (u ''{"x": 1}''))) (u ''red_flags'')
       = Some (PyList [PyStr ((u ''Response missing '') @ quoted (u ''score'') @ (u '' field''))])\<close>
proof -
  have dec: \<open>json_loads 900 (extract_object (strip_fences (u ''{"x": 1}''))) = Inr (PyDict [((u ''x''), PyInt 1)])\<close>
    by (simp add: text_eval decoder_eval)
  have nk: "\<not> has_key [((u ''x''), PyInt 1)] (u ''score'')"
    by (simp add: has_key_def)
  from missing_score_generic[of "json_loads 900" _ "[((u ''x''), PyInt 1)]", OF dec nk] dec nk
  show ?thesis
    unfolding parse_score_response_def by blast
qed

text \<open>
  The claim as stated fails for the text \<^verbatim>\<open>"score": 7 {"x": 1}\<close>: the pattern search would
  find 7 in the raw text, but the score is 50, and the executive summary does not embed
  the raw text.
\<close>

theorem missing_score_not_recovered:
  \<open>json_loads 900 (extract_object (strip_fences (u ''"score": 7 {"x": 1}''))) = Inr (PyDict [((u ''x''), PyInt 1)])
   \<and> search_score (u ''"score": 7 {"x": 1}'') = Some (u ''7'')
   \<and> result_field (parse_score_response 900 (PyStr (u ''"score": 7 {"x": 1}''))) (u ''score'') = Some (PyInt 50)
   \<and> result_field (parse_score_response 900 (PyStr (u ''"score": 7 {"x": 1}''))) (u ''executive_summary'')
       = Some (PyStr ((u ''Warning: Error: Response missing '') @ quoted (u ''score'') @ (u '' field'')))
   \<and> \<not> contains ((u ''Warning: Error: Response missing '') @ quoted (u ''score'') @ (u '' field''))
                   (u ''"score": 7 {"x": 1}'')\<close>
  by (simp add: normalizer_eval decoder_eval result_field_def generic_error_result_def
        score_match_at_def is_decimal_def)

end
